theory Spec2Isabelle
  imports Complex_Main "HOL-Library.Multiset"
begin

section \<open>Data model of the paper-trading engine\<close>

text \<open>
  The engine is the class \<open>OrderService\<close> of \<open>src/order/order.service.ts\<close> together with
  \<open>UserService.increaseUserBalance\<close> and the helpers of \<open>src/exchange/utils.ts\<close> and
  \<open>src/order/utils.ts\<close>. JavaScript numbers are modelled as exact rationals; an
  \<open>undefined\<close>/\<open>null\<close> value is \<open>None\<close>; a thrown exception is a value of type \<open>error\<close>.
\<close>

datatype ExchangeEnum =
    binance | kucoin | kucoinLinear | kucoinInverse | ftx | bybit
  | binanceCoinm | binanceUsdm | bybitCoinm | bybitUsdm
  | okx | okxLinear | okxInverse | coinbase
  | bitget | bitgetCoinm | bitgetUsdm | mexc | hyperliquid | hyperliquidInverse

datatype OrderSide = BUY | SELL

datatype OrderType = LIMIT | MARKET

text \<open>\<open>OrderStatus.CREATED\<close> is the status whose wire value is \<open>NEW\<close>.\<close>

datatype OrderStatus = CREATED | FILLED | PARTIALLY_FILLED | CANCELED | EXPIRED

datatype PositionSide = BOTH | LONG | SHORT

datatype PositionStatus = PositionNew | PositionClosed

datatype StatusEnum = ok | notok

datatype FeeType = taker | maker

text \<open>
  What a call can throw: an \<open>HttpException\<close> with message and status code, the
  \<open>TypeError\<close> of reading a property of \<open>null\<close>/\<open>undefined\<close> (it reaches the HTTP caller as
  status 500), and the duplicate-key error of the store's unique indexes.
\<close>

datatype error = HttpException string nat | TypeError | DuplicateKeyError

record ExchangeInfo =
  baseAsset_name :: string
  baseAsset_minAmount :: rat
  quoteAsset_name :: string
  quoteAsset_minAmount :: rat

text \<open>
  Outcome of \<open>ExchangeService.getExchangeInfo\<close>'s lookup chain (symbol collection, then the
  external service): the data, a response without data, or no response at all.
\<close>

datatype SymbolLookup = Found ExchangeInfo | NullData | NoResponse

record Order =
  o_id :: string
  o_amount :: rat
  o_filledAmount :: rat
  o_filledQuoteAmount :: rat
  o_quoteAmount :: rat
  o_price :: rat
  o_avgFilledPrice :: rat
  o_fee :: rat
  o_feePerc :: "rat option"
  o_symbol :: string
  o_user :: string
  o_exchange :: ExchangeEnum
  o_status :: OrderStatus
  o_type :: OrderType
  o_side :: OrderSide
  o_externalId :: string
  o_reduceOnly :: bool
  o_positionSide :: "PositionSide option"

record Position =
  p_id :: string
  p_symbol :: string
  p_margin :: rat
  p_entryPrice :: rat
  p_closePrice :: rat
  p_liquidationPrice :: rat
  p_positionSide :: PositionSide
  p_positionAmt :: rat
  p_user :: string
  p_exchange :: ExchangeEnum
  p_status :: PositionStatus
  p_profit :: rat
  p_fee :: rat
  p_leverage :: rat
  p_uuid :: string

record Leverage =
  l_user :: string
  l_symbol :: string
  l_side :: "PositionSide option"
  l_leverage :: rat
  l_locked :: bool

record User =
  u_id :: string
  u_key :: string
  u_secret :: string

record Wallet =
  w_free :: rat
  w_locked :: rat

record CreateOrderDto =
  dto_key :: string
  dto_secret :: string
  dto_symbol :: string
  dto_amount :: rat
  dto_type :: OrderType
  dto_exchange :: ExchangeEnum
  dto_side :: OrderSide
  dto_externalId :: string
  dto_price :: rat
  dto_reduceOnly :: bool
  dto_positionSide :: "PositionSide option"

record CreateOrderResponse =
  r_orderId :: string
  r_status :: OrderStatus

record BaseReturn =
  br_status :: StatusEnum
  br_data :: "rat option"

record Ticker =
  bestAsk :: rat
  bestBid :: rat
  bestAskQnt :: rat
  bestBidQnt :: rat
  t_symbol :: string
  t_time :: int
  t_price :: rat
  eventTime :: "int option"

record Tick =
  tk_bestBid :: rat
  tk_bestAsk :: rat
  bidQty :: rat
  askQty :: rat
  tk_time :: int

text \<open>
  The state of the engine: the stores (users, wallets keyed by user and asset, orders,
  positions, leverage rows, hedge flags, symbol data) and the process-local maps of
  \<open>OrderService\<close>. A JavaScript \<open>Map\<close> whose iteration order matters is an association
  list in insertion order. Timestamps of records, the symbol cache \<open>symbolsMap\<close> (a
  time-limited copy of immutable symbol data), the pub/sub subscriptions and the pushed
  events are not part of the state.
\<close>

record engine =
  users :: "User list"
  walletModel :: "string \<times> string \<rightharpoonup> Wallet"
  orderModel :: "Order list"
  positionModel :: "Position list"
  leverageModel :: "Leverage list"
  hedgeModel :: "string \<rightharpoonup> bool"
  symbolInfo :: "string \<times> ExchangeEnum \<Rightarrow> SymbolLookup"
  watchSymbols :: "string \<rightharpoonup> string set"
  tickerTimeMap :: "string \<rightharpoonup> int"
  symbolPriceMap :: "string \<rightharpoonup> rat option"
  tickerSignatureMap :: "string \<rightharpoonup> string"
  currentOrders :: "string \<rightharpoonup> (string \<times> Order) list"
  currentPositions :: "string \<rightharpoonup> (string \<times> Position) list"

text \<open>
  What one call reads from outside the engine: the clock (one instant for the whole
  call), the answer of the external latest-price lookup (\<open>None\<close> when the request fails
  and \<open>Exchange.handleError\<close> turns it into \<open>null\<close>), and the identifiers the store and
  \<open>v4()\<close> hand out.
\<close>

record env =
  e_now :: int
  e_latestPrice :: "BaseReturn option"
  e_newOrderId :: string
  e_newPositionId :: string
  e_newUuid :: string

section \<open>Helpers\<close>

text \<open>\<open>Map.prototype.set\<close>, \<open>delete\<close> and \<open>values\<close> on an insertion-ordered map.\<close>

fun jmap_set :: "'k \<Rightarrow> 'v \<Rightarrow> ('k \<times> 'v) list \<Rightarrow> ('k \<times> 'v) list" where
  "jmap_set k v [] = [(k, v)]"
| "jmap_set k v ((k', v') # m) = (if k' = k then (k, v) # m else (k', v') # jmap_set k v m)"

definition jmap_delete :: "'k \<Rightarrow> ('k \<times> 'v) list \<Rightarrow> ('k \<times> 'v) list" where
  "jmap_delete k m = filter (\<lambda>kv. fst kv \<noteq> k) m"

definition jmap_values :: "('k \<times> 'v) list option \<Rightarrow> 'v list" where
  "jmap_values m = (case m of None \<Rightarrow> [] | Some kvs \<Rightarrow> map snd kvs)"

text \<open>The wire values of \<open>ExchangeEnum\<close> (src/exchange/types.ts).\<close>

fun exchangeName :: "ExchangeEnum \<Rightarrow> string" where
  "exchangeName binance = ''binance''"
| "exchangeName kucoin = ''kucoin''"
| "exchangeName kucoinLinear = ''kucoinLinear''"
| "exchangeName kucoinInverse = ''kucoinInverse''"
| "exchangeName ftx = ''ftx''"
| "exchangeName bybit = ''bybit''"
| "exchangeName binanceCoinm = ''binanceCoinm''"
| "exchangeName binanceUsdm = ''binanceUsdm''"
| "exchangeName bybitCoinm = ''bybitInverse''"
| "exchangeName bybitUsdm = ''bybitLinear''"
| "exchangeName okx = ''okx''"
| "exchangeName okxLinear = ''okxLinear''"
| "exchangeName okxInverse = ''okxInverse''"
| "exchangeName coinbase = ''coinbase''"
| "exchangeName bitget = ''bitget''"
| "exchangeName bitgetCoinm = ''bitgetCoinm''"
| "exchangeName bitgetUsdm = ''bitgetUsdm''"
| "exchangeName mexc = ''mexc''"
| "exchangeName hyperliquid = ''hyperliquid''"
| "exchangeName hyperliquidInverse = ''hyperliquidInverse''"

text \<open>The key \<open>`${symbol}@${exchange}`\<close> of the watch set and of the price maps.\<close>

definition symKey :: "string \<Rightarrow> ExchangeEnum \<Rightarrow> string" where
  "symKey smb ex = smb @ ''@'' @ exchangeName ex"

text \<open>
  \<open>isFutures\<close> and \<open>isCoinm\<close> of src/exchange/utils.ts, the module that the order service
  imports. The repository holds a second copy of these helpers whose two lists also name
  \<open>hyperliquidInverse\<close>; the lists below are those of the imported module.
\<close>

definition isFutures :: "ExchangeEnum \<Rightarrow> bool" where
  "isFutures ex = (ex \<in> set
     [binanceCoinm, binanceUsdm, bybitCoinm, bybitUsdm, okxLinear, okxInverse,
      kucoinLinear, kucoinInverse, bitgetCoinm, bitgetUsdm])"

definition isCoinm :: "ExchangeEnum \<Rightarrow> bool" where
  "isCoinm ex = (ex \<in> set
     [binanceCoinm, bybitCoinm, okxInverse, kucoinInverse, bitgetCoinm])"

definition spotMakerFee :: rat where "spotMakerFee = 1 / 1000"
definition usdmMakerFee :: rat where "usdmMakerFee = 2 / 10000"
definition coinmMakerFee :: rat where "coinmMakerFee = 1 / 10000"

text \<open>\<open>OrderService.getUserFee\<close> (lines 940-952).\<close>

definition getUserFee :: "FeeType \<Rightarrow> ExchangeEnum \<Rightarrow> rat" where
  "getUserFee ty ex =
     (if ty = maker
      then (if isFutures ex then (if isCoinm ex then coinmMakerFee else usdmMakerFee)
            else spotMakerFee)
      else (if isFutures ex then (if isCoinm ex then coinmMakerFee * 5 else usdmMakerFee * 2)
            else spotMakerFee))"

text \<open>
  \<open>MathHelper.round(num, precision)\<close> (utils/math), with \<open>None\<close> for the result \<open>NaN\<close>.
  The number is first written as a string. A number that JavaScript writes in exponent
  notation (at least \<open>10^21\<close> or, when not zero, below \<open>10^-6\<close> in absolute value) is
  rewritten by \<open>convertFromExponential\<close>, that is by \<open>toFixed(min(precision + 2, 20))\<close>:
  for a small number this rounds it to that many decimals, half away from zero, and keeps
  its sign; for a large one \<open>toFixed\<close> returns the exponent notation again, and
  \<open>Number(num + 'e' + precision)\<close> is \<open>NaN\<close>. The precision is then cut down to
  \<open>20 - length\<close> when the integer part (with its sign) and the precision take more than
  20 characters; a negative precision gives the string \<open>'e--1'\<close> and so \<open>NaN\<close>.
  \<open>Math.round\<close> rounds half up.
\<close>

fun ndigits :: "nat \<Rightarrow> nat" where
  "ndigits n = (if n < 10 then 1 else Suc (ndigits (n div 10)))"

definition expNotation :: "rat \<Rightarrow> bool" where
  "expNotation x = (x \<noteq> 0 \<and> (\<bar>x\<bar> \<ge> 10 ^ 21 \<or> \<bar>x\<bar> < 1 / 10 ^ 6))"

definition toFixed :: "rat \<Rightarrow> nat \<Rightarrow> rat" where
  "toFixed x digits =
     (if x < 0 then - 1 else 1) * (of_int \<lfloor>\<bar>x\<bar> * 10 ^ digits + 1 / 2\<rfloor> / 10 ^ digits)"

definition intPartLength :: "bool \<Rightarrow> rat \<Rightarrow> nat" where
  "intPartLength negative x = (if negative then 1 else 0) + ndigits (nat \<lfloor>\<bar>x\<bar>\<rfloor>)"

definition math_round :: "rat \<Rightarrow> nat \<Rightarrow> rat option" where
  "math_round x precision0 =
     (if expNotation x \<and> \<bar>x\<bar> \<ge> 10 ^ 21 then None
      else
        (let num = (if expNotation x then toFixed x (min (precision0 + 2) 20) else x);
             len = intPartLength (x < 0) num
         in if len > 20 then None
            else
              (let precision = (if len + precision0 > 20 then 20 - len else precision0)
               in Some (of_int \<lfloor>num * 10 ^ precision + 1 / 2\<rfloor> / 10 ^ precision))))"

text \<open>\<open>Number.EPSILON\<close>.\<close>

definition Number_EPSILON :: rat where
  "Number_EPSILON = 1 / 2 ^ 52"

text \<open>JavaScript truthiness of an optional number: \<open>undefined\<close>, \<open>null\<close> and \<open>0\<close> are falsy.\<close>

definition falsy :: "rat option \<Rightarrow> bool" where
  "falsy x = (case x of None \<Rightarrow> True | Some v \<Rightarrow> v = 0)"

section \<open>Stores and the in-memory projection\<close>

text \<open>\<open>UserService.getUserByKeyAndSecretOrThrow\<close>.\<close>

definition getUserByKeyAndSecretOrThrow :: "engine \<Rightarrow> string \<Rightarrow> string \<Rightarrow> error + User" where
  "getUserByKeyAndSecretOrThrow s key secret =
     (case find (\<lambda>u. u_key u = key \<and> u_secret u = secret) (users s) of
        None \<Rightarrow> Inl (HttpException ''User not found'' 400)
      | Some u \<Rightarrow> Inr u)"


text \<open>
  \<open>ExchangeService.getExchangeInfo\<close>: it throws "Symbol not found" when the lookup
  chain gives no response, and returns the response's data (possibly \<open>null\<close>) otherwise.
\<close>

definition getExchangeInfo :: "engine \<Rightarrow> string \<Rightarrow> ExchangeEnum \<Rightarrow> error + ExchangeInfo option" where
  "getExchangeInfo s smb ex =
     (case symbolInfo s (smb, ex) of
        NoResponse \<Rightarrow> Inl (HttpException ''Symbol not found'' 400)
      | NullData \<Rightarrow> Inr None
      | Found info \<Rightarrow> Inr (Some info))"

text \<open>
  \<open>UserService.increaseUserBalance\<close> (called through \<open>OrderService.updateBalance\<close>): one
  \<open>findOneAndUpdate\<close> with \<open>$inc\<close> and \<open>upsert\<close> per update; the guard on the sign of the
  result is commented out in the source, so every increment is applied.
\<close>

definition incWallet :: "string \<Rightarrow> string \<times> rat \<times> rat \<Rightarrow> engine \<Rightarrow> engine" where
  "incWallet uid upd s =
     (case upd of (asset, dfree, dlocked) \<Rightarrow>
        s\<lparr>walletModel := (walletModel s)((uid, asset) \<mapsto>
             (case walletModel s (uid, asset) of
                None \<Rightarrow> \<lparr>w_free = dfree, w_locked = dlocked\<rparr>
              | Some w \<Rightarrow> \<lparr>w_free = w_free w + dfree, w_locked = w_locked w + dlocked\<rparr>))\<rparr>)"

definition increaseUserBalance :: "engine \<Rightarrow> string \<Rightarrow> (string \<times> rat \<times> rat) list \<Rightarrow> engine" where
  "increaseUserBalance s uid updates = fold (incWallet uid) updates s"

definition updateBalance :: "engine \<Rightarrow> string \<Rightarrow> (string \<times> rat \<times> rat) list \<Rightarrow> engine" where
  "updateBalance s uid data = (if data = [] then s else increaseUserBalance s uid data)"

text \<open>
  \<open>orderModel.create\<close>: the store refuses a second document with the same \<open>_id\<close> or the
  same pair (externalId, symbol) (the unique index of order.schema.ts).
\<close>

definition orderModel_create :: "engine \<Rightarrow> Order \<Rightarrow> error + engine" where
  "orderModel_create s order =
     (if list_ex (\<lambda>d. o_id d = o_id order
                         \<or> (o_externalId d = o_externalId order \<and> o_symbol d = o_symbol order))
           (orderModel s)
      then Inl DuplicateKeyError
      else Inr (s\<lparr>orderModel := orderModel s @ [order]\<rparr>))"

text \<open>\<open>updateOne\<close>/\<open>findOneAndUpdate\<close>: the first document that matches is rewritten.\<close>

fun updateFirst :: "('a \<Rightarrow> bool) \<Rightarrow> ('a \<Rightarrow> 'a) \<Rightarrow> 'a list \<Rightarrow> 'a list" where
  "updateFirst P f [] = []"
| "updateFirst P f (x # xs) = (if P x then f x # xs else x # updateFirst P f xs)"

text \<open>\<open>setOrder\<close>, \<open>removeOrder\<close>, \<open>setPosition\<close>, \<open>removePosition\<close> (lines 296-344).\<close>

definition setOrder :: "engine \<Rightarrow> Order \<Rightarrow> engine" where
  "setOrder s order =
     s\<lparr>currentOrders := (currentOrders s)(o_symbol order \<mapsto>
          jmap_set (o_externalId order) order
            (case currentOrders s (o_symbol order) of None \<Rightarrow> [] | Some m \<Rightarrow> m))\<rparr>"

definition removeOrder :: "engine \<Rightarrow> Order \<Rightarrow> engine" where
  "removeOrder s order =
     (case currentOrders s (o_symbol order) of
        None \<Rightarrow> s
      | Some m \<Rightarrow> s\<lparr>currentOrders := (currentOrders s)(o_symbol order \<mapsto>
                      jmap_delete (o_externalId order) m)\<rparr>)"

definition setPosition :: "engine \<Rightarrow> Position \<Rightarrow> engine" where
  "setPosition s position =
     s\<lparr>currentPositions := (currentPositions s)(p_symbol position \<mapsto>
          jmap_set (p_uuid position) position
            (case currentPositions s (p_symbol position) of None \<Rightarrow> [] | Some m \<Rightarrow> m))\<rparr>"

definition removePosition :: "engine \<Rightarrow> Position \<Rightarrow> engine" where
  "removePosition s position =
     (case currentPositions s (p_symbol position) of
        None \<Rightarrow> s
      | Some m \<Rightarrow> s\<lparr>currentPositions := (currentPositions s)(p_symbol position \<mapsto>
                      jmap_delete (p_uuid position) m)\<rparr>)"

text \<open>\<open>getOrdersBySymbols\<close> and \<open>getPositionsBySymbols\<close> (src/order/utils.ts).\<close>

definition getOrdersBySymbols :: "string list \<Rightarrow> (string \<rightharpoonup> (string \<times> Order) list) \<Rightarrow> Order list" where
  "getOrdersBySymbols symbols cur = concat (map (\<lambda>smb. jmap_values (cur smb)) symbols)"

definition getPositionsBySymbols ::
  "string list \<Rightarrow> (string \<rightharpoonup> (string \<times> Position) list) \<Rightarrow> Position list" where
  "getPositionsBySymbols symbols cur = concat (map (\<lambda>smb. jmap_values (cur smb)) symbols)"

text \<open>Adding a holder to and dropping a holder from the watch set of a key.\<close>

definition watchAdd :: "engine \<Rightarrow> string \<Rightarrow> string \<Rightarrow> engine" where
  "watchAdd s k holder =
     s\<lparr>watchSymbols := (watchSymbols s)(k \<mapsto>
          insert holder (case watchSymbols s k of None \<Rightarrow> {} | Some hs \<Rightarrow> hs))\<rparr>"

text \<open>
  \<open>(watchSymbols.get(sym) ?? new Set()).delete(id)\<close> followed by the removal of the key
  when the set (or the absent entry) is empty; the unsubscription that goes with it is
  outside the state.
\<close>

definition watchDrop :: "engine \<Rightarrow> string \<Rightarrow> string \<Rightarrow> engine" where
  "watchDrop s k holder =
     (let w1 = (case watchSymbols s k of
                  None \<Rightarrow> watchSymbols s
                | Some hs \<Rightarrow> (watchSymbols s)(k \<mapsto> hs - {holder}))
      in s\<lparr>watchSymbols :=
             (if (case w1 k of None \<Rightarrow> {} | Some hs \<Rightarrow> hs) = {} then w1(k := None) else w1)\<rparr>)"

section \<open>Latest price\<close>

text \<open>
  \<open>OrderService.getLatestPriceInExchange\<close> (lines 954-983), with \<open>newDataLimit\<close> = 30 s in
  milliseconds. The refreshed price and its time are stored before the check that throws.
\<close>

definition newDataLimit :: int where
  "newDataLimit = 30 * 1000"

definition getLatestPriceInExchange ::
  "env \<Rightarrow> engine \<Rightarrow> string \<Rightarrow> ExchangeEnum \<Rightarrow> (error + rat) \<times> engine" where
  "getLatestPriceInExchange env s smb ex =
     (let key = symKey smb ex;
          currentPrice = (case symbolPriceMap s key of None \<Rightarrow> None | Some v \<Rightarrow> v);
          tickerTime = (case tickerTimeMap s key of None \<Rightarrow> 0 | Some t \<Rightarrow> t)
      in if falsy currentPrice \<or> e_now env - tickerTime > newDataLimit
         then (case e_latestPrice env of
                 None \<Rightarrow> (Inl TypeError, s)
               | Some request \<Rightarrow>
                   (let s' = s\<lparr>tickerTimeMap := (tickerTimeMap s)(key \<mapsto> e_now env),
                                symbolPriceMap := (symbolPriceMap s)(key \<mapsto> br_data request)\<rparr>
                    in if falsy (br_data request)
                       then (Inl (HttpException ''Failed to get latest price from exchange'' 400), s')
                       else (Inr (the (br_data request)), s')))
         else (Inr (the currentPrice), s))"

section \<open>Liquidation price\<close>

text \<open>\<open>OrderService.liquidationPrice\<close> (order.service.ts, lines 1179-1194).\<close>

definition liquidationPrice :: "rat \<Rightarrow> PositionSide \<Rightarrow> rat \<Rightarrow> rat \<Rightarrow> rat" where
  "liquidationPrice entryPrice position fee leverage =
     entryPrice *
       (if leverage > 1
        then (1 + (1 / leverage) * (if position = LONG then - 1 else 1)) *
             (1 + fee * (if position = LONG then - 1 else 1))
        else if position = LONG then fee else 1 / fee)"

section \<open>Derivatives settlement\<close>

text \<open>
  \<open>OrderService.createPositionFromOrder\<close> (lines 1099-1137); the store gives the new
  document its \<open>_id\<close>, \<open>v4()\<close> its uuid.
\<close>

definition createPositionFromOrder ::
  "env \<Rightarrow> Order \<Rightarrow> rat \<Rightarrow> rat option \<Rightarrow> rat option \<Rightarrow> rat option \<Rightarrow> Position" where
  "createPositionFromOrder env order leverage margin0 fee0 amount0 =
     (let margin = (case margin0 of None \<Rightarrow> (o_amount order * o_price order) / leverage
                                  | Some m \<Rightarrow> m);
          fee = (case fee0 of None \<Rightarrow> o_fee order | Some f \<Rightarrow> f);
          feePerc = getUserFee (if o_type order = LIMIT then maker else taker) (o_exchange order)
      in \<lparr>p_id = e_newPositionId env,
          p_symbol = o_symbol order,
          p_margin = margin,
          p_entryPrice = o_price order,
          p_closePrice = 0,
          p_liquidationPrice =
            liquidationPrice (o_price order) (if o_side order = BUY then LONG else SHORT)
              feePerc leverage,
          p_positionSide = (if o_side order = BUY then LONG else SHORT),
          p_positionAmt = (case amount0 of None \<Rightarrow> o_amount order | Some a \<Rightarrow> a),
          p_user = o_user order,
          p_exchange = o_exchange order,
          p_status = PositionNew,
          p_profit = - fee,
          p_fee = fee,
          p_leverage = leverage,
          p_uuid = e_newUuid env\<rparr>)"

text \<open>\<open>positionModel.create\<close> followed by \<open>addPositionToWatchList\<close> (lines 1139-1147).\<close>

definition addPositionToWatchList :: "engine \<Rightarrow> Position \<Rightarrow> engine" where
  "addPositionToWatchList s position =
     watchAdd (setPosition s position)
       (symKey (p_symbol position) (p_exchange position)) (p_id position)"

definition positionModel_create :: "engine \<Rightarrow> Position \<Rightarrow> engine" where
  "positionModel_create s position = s\<lparr>positionModel := positionModel s @ [position]\<rparr>"

text \<open>\<open>lockLeverage\<close> and \<open>unLockLeverage\<close> (lines 1153-1177).\<close>

definition setLeverageLocked ::
  "bool \<Rightarrow> engine \<Rightarrow> string \<Rightarrow> string \<Rightarrow> PositionSide option \<Rightarrow> engine" where
  "setLeverageLocked b s uid smb sd =
     s\<lparr>leverageModel :=
          updateFirst (\<lambda>l. l_user l = uid \<and> l_symbol l = smb \<and> l_side l = sd)
            (\<lambda>l. l\<lparr>l_locked := b\<rparr>) (leverageModel s)\<rparr>"

definition lockLeverage :: "engine \<Rightarrow> string \<Rightarrow> string \<Rightarrow> PositionSide option \<Rightarrow> engine" where
  "lockLeverage = setLeverageLocked True"

definition unLockLeverage :: "engine \<Rightarrow> string \<Rightarrow> string \<Rightarrow> PositionSide option \<Rightarrow> engine" where
  "unLockLeverage = setLeverageLocked False"

text \<open>
  The realised profit that \<open>processFuturesPosition\<close> writes out in each of its closing
  branches, for the amount \<open>amt\<close> closed at \<open>price\<close> and the fee charged to it.
\<close>

definition realizedProfit ::
  "bool \<Rightarrow> rat \<Rightarrow> rat \<Rightarrow> rat \<Rightarrow> rat \<Rightarrow> bool \<Rightarrow> rat \<Rightarrow> rat" where
  "realizedProfit coinm amt quoteMin entry price isLong fee =
     (if coinm
      then ((amt * quoteMin) / entry - (amt * quoteMin) / price) * (if isLong then 1 else - 1) - fee
      else (amt * price - amt * entry) * (if isLong then 1 else - 1) - fee)"

text \<open>
  The tail of \<open>processFuturesPosition\<close> for an existing position (lines 1380-1399): the
  projection and the store take the changed position, the wallet of the margin asset
  takes the deltas.
\<close>

definition finishPosition ::
  "engine \<Rightarrow> Order \<Rightarrow> Position \<Rightarrow> string \<Rightarrow> rat \<Rightarrow> rat \<Rightarrow> engine" where
  "finishPosition s order current asset free locked =
     (let s1 = (if p_status current = PositionClosed then removePosition s current
                else setPosition s current);
          s2 = s1\<lparr>positionModel :=
                 updateFirst (\<lambda>p. p_uuid p = p_uuid current) (\<lambda>_. current) (positionModel s1)\<rparr>
      in updateBalance s2 (o_user order) [(asset, free, locked)])"

text \<open>
  The test of \<open>processFuturesPosition\<close> for an order that closes the whole position
  (lines 1256-1263): the difference of the amounts is within \<open>Number.EPSILON\<close>, or its
  rounding to 10 decimals is below one contract (inverse) or below the minimum amount of the
  base asset. A comparison with \<open>NaN\<close> is false.
\<close>

definition closesPosition :: "bool \<Rightarrow> ExchangeInfo \<Rightarrow> rat \<Rightarrow> bool" where
  "closesPosition coinm symbol diff =
     (let roundedDiff = math_round diff 10
      in \<bar>diff\<bar> \<le> Number_EPSILON \<or>
         (case roundedDiff of
            None \<Rightarrow> False
          | Some r \<Rightarrow> if coinm then \<bar>r\<bar> < 1 else \<bar>r\<bar> < baseAsset_minAmount symbol))"

text \<open>
  \<open>OrderService.processFuturesPosition\<close> (lines 1196-1400). The order is passed by
  reference and rewritten in the reduce-only branch, so the order as it stands after the
  call is returned with the state. \<open>findOneAndUpdate({externalId}, {...order})\<close> rewrites
  the first stored order with that externalId. The
  divisors of the settlement (the order price, the entry price, the leverage and the
  amount of the enlarged position) are taken to be different from zero.
\<close>

definition processFuturesPosition ::
  "env \<Rightarrow> engine \<Rightarrow> Order \<Rightarrow> rat \<Rightarrow> ExchangeInfo \<Rightarrow> engine \<times> Order" where
  "processFuturesPosition env s order leverage symbol =
     (let hedge = (case hedgeModel s (o_user order) of None \<Rightarrow> False | Some h \<Rightarrow> h);
          current = find (\<lambda>p. p_user p = o_user order \<and>
                              (if hedge then Some (p_positionSide p) = o_positionSide order else True))
                      (getPositionsBySymbols [o_symbol order] (currentPositions s));
          coinm = isCoinm (o_exchange order);
          quoteMin = quoteAsset_minAmount symbol;
          margin = (if coinm then (o_amount order * quoteMin) / o_price order / leverage
                    else (o_amount order * o_price order) / leverage);
          asset = (if coinm then baseAsset_name symbol else quoteAsset_name symbol)
      in case current of
           None \<Rightarrow>
             (let position = createPositionFromOrder env order leverage (Some margin) None None;
                  s1 = addPositionToWatchList (positionModel_create s position) position;
                  s2 = lockLeverage s1 (o_user order) (o_symbol order) (o_positionSide order)
              in (updateBalance s2 (o_user order) [(asset, - margin - o_fee order, margin)], order))
         | Some current \<Rightarrow>
             (let feePerc = (if falsy (o_feePerc order)
                             then getUserFee (if o_type order = LIMIT then maker else taker)
                                    (o_exchange order)
                             else the (o_feePerc order))
              in if (o_side order = BUY \<and> p_positionSide current = LONG) \<or>
                    (o_side order = SELL \<and> p_positionSide current = SHORT)
                 then
                   (let entryPrice = (p_entryPrice current * p_positionAmt current
                                        + o_price order * o_amount order)
                                     / (p_positionAmt current + o_amount order);
                        current' = current\<lparr>
                          p_margin := p_margin current + margin,
                          p_entryPrice := entryPrice,
                          p_positionAmt := p_positionAmt current + o_amount order,
                          p_liquidationPrice :=
                            liquidationPrice entryPrice (p_positionSide current) feePerc leverage,
                          p_fee := p_fee current + o_fee order,
                          p_profit := p_profit current - o_fee order\<rparr>
                    in (finishPosition s order current' asset (- margin - o_fee order) margin, order))
                 else
                   (let long = (p_positionSide current = LONG);
                        diff = p_positionAmt current - o_amount order
                    in if closesPosition coinm symbol diff
                       then
                         (let profit = realizedProfit coinm (p_positionAmt current) quoteMin
                                         (p_entryPrice current) (o_price order) long (o_fee order);
                              old = p_margin current;
                              current' = current\<lparr>
                                p_status := PositionClosed,
                                p_profit := p_profit current + profit,
                                p_fee := p_fee current + o_fee order,
                                p_margin := 0,
                                p_closePrice := o_price order\<rparr>;
                              s1 = unLockLeverage s (o_user order) (o_symbol order)
                                     (o_positionSide order);
                              s2 = watchDrop s1 (symKey (o_symbol order) (o_exchange order))
                                     (p_id current)
                          in (finishPosition s2 order current' asset (old + profit) (- old), order))
                       else if diff \<le> 0 then
                         (if o_reduceOnly order then
                            (let fee' = o_fee order -
                                          (if coinm then (\<bar>diff\<bar> * quoteMin) / o_price order
                                           else \<bar>diff\<bar> * feePerc);
                                 amount' = p_positionAmt current;
                                 order' = order\<lparr>
                                   o_fee := fee',
                                   o_amount := amount',
                                   o_filledAmount := amount',
                                   o_quoteAmount := amount' * o_price order,
                                   o_filledQuoteAmount := amount' * o_price order\<rparr>;
                                 profit = realizedProfit coinm amount' quoteMin
                                            (p_entryPrice current) (o_price order) long fee';
                                 old = p_margin current;
                                 current' = current\<lparr>
                                   p_status := PositionClosed,
                                   p_profit := p_profit current + profit,
                                   p_fee := p_fee current + fee',
                                   p_margin := 0,
                                   p_closePrice := o_price order\<rparr>;
                                 s1 = s\<lparr>orderModel :=
                                        updateFirst (\<lambda>d. o_externalId d = o_externalId order')
                                          (\<lambda>d. order'\<lparr>o_id := o_id d\<rparr>) (orderModel s)\<rparr>;
                                 s2 = unLockLeverage s1 (o_user order) (o_symbol order)
                                        (o_positionSide order)
                             in (finishPosition s2 order' current' asset (old + profit) (- old),
                                 order'))
                          else
                            (let diffMargin =
                                   (if coinm
                                    then (p_positionAmt current * quoteMin)
                                           / p_entryPrice current / leverage
                                    else (p_positionAmt current * p_entryPrice current) / leverage);
                                 fee = (if coinm
                                        then (p_positionAmt current * quoteMin) / o_price order
                                        else p_positionAmt current * o_price order) * feePerc;
                                 profit = realizedProfit coinm (p_positionAmt current) quoteMin
                                            (p_entryPrice current) (o_price order) long fee;
                                 current' = current\<lparr>
                                   p_status := PositionClosed,
                                   p_profit := p_profit current + profit,
                                   p_fee := p_fee current + fee,
                                   p_margin := p_margin current - diffMargin,
                                   p_closePrice := o_price order\<rparr>;
                                 locked = - diffMargin + (margin - diffMargin);
                                 free = diffMargin + profit + fee - o_fee order
                                          - (margin - diffMargin);
                                 position = createPositionFromOrder env order leverage
                                              (Some (margin - diffMargin))
                                              (Some (o_fee order - fee))
                                              (Some (o_amount order - p_positionAmt current));
                                 s1 = addPositionToWatchList (positionModel_create s position)
                                        position
                             in (finishPosition s1 order current' asset free locked, order)))
                       else
                         (let profit = realizedProfit coinm (o_amount order) quoteMin
                                         (p_entryPrice current) (o_price order) long (o_fee order);
                              current' = current\<lparr>
                                p_margin := p_margin current - margin,
                                p_positionAmt := p_positionAmt current - o_amount order,
                                p_profit := p_profit current + profit,
                                p_fee := p_fee current + o_fee order\<rparr>
                          in (finishPosition s order current' asset (margin + profit) (- margin),
                              order)))))"

section \<open>Order creation\<close>

text \<open>
  The document that \<open>processMarketOrder\<close> hands to \<open>orderModel.create\<close> (lines
  1015-1057; its two branches build the same document from the fee of the side).
\<close>

definition marketOrderData ::
  "env \<Rightarrow> CreateOrderDto \<Rightarrow> User \<Rightarrow> rat \<Rightarrow> rat \<Rightarrow> rat \<Rightarrow> rat \<Rightarrow> Order" where
  "marketOrderData env order usr currentPrice quoteAssetAmount fee feePerc =
     \<lparr>o_id = e_newOrderId env,
      o_amount = dto_amount order,
      o_filledAmount = dto_amount order,
      o_filledQuoteAmount = quoteAssetAmount,
      o_quoteAmount = quoteAssetAmount,
      o_price = currentPrice,
      o_avgFilledPrice = currentPrice,
      o_fee = fee,
      o_feePerc = Some feePerc,
      o_symbol = dto_symbol order,
      o_user = u_id usr,
      o_exchange = dto_exchange order,
      o_status = FILLED,
      o_type = MARKET,
      o_side = dto_side order,
      o_externalId = dto_externalId order,
      o_reduceOnly = dto_reduceOnly order,
      o_positionSide = dto_positionSide order\<rparr>"

text \<open>The fee of a market order (lines 999-1016 and 1037).\<close>

definition marketFee :: "CreateOrderDto \<Rightarrow> ExchangeInfo \<Rightarrow> rat \<Rightarrow> rat" where
  "marketFee order symbol currentPrice =
     (let futures = isFutures (dto_exchange order);
          coinm = isCoinm (dto_exchange order);
          quoteAssetAmount = dto_amount order * currentPrice;
          baseAssetAmount = (if coinm
                             then (dto_amount order * quoteAsset_minAmount symbol) / currentPrice
                             else dto_amount order);
          feePerc = getUserFee taker (dto_exchange order);
          fee0 = (if futures
                  then (if coinm then baseAssetAmount * feePerc else quoteAssetAmount * feePerc)
                  else 0)
      in if dto_side order = SELL
         then (if futures then fee0 else quoteAssetAmount * feePerc)
         else (if futures then fee0 else dto_amount order * feePerc))"

text \<open>
  \<open>OrderService.processMarketOrder\<close> (lines 985-1097). It is reached from \<open>createOrder\<close>
  only, after the symbol data has been read once; a symbol without data would raise a
  \<open>TypeError\<close> at its first use.
\<close>

definition processMarketOrder ::
  "env \<Rightarrow> engine \<Rightarrow> CreateOrderDto \<Rightarrow> User \<Rightarrow> rat \<Rightarrow> (error + CreateOrderResponse) \<times> engine" where
  "processMarketOrder env s order usr leverage =
     (case getLatestPriceInExchange env s (dto_symbol order) (dto_exchange order) of
        (Inl e, s1) \<Rightarrow> (Inl e, s1)
      | (Inr currentPrice, s1) \<Rightarrow>
     (case getExchangeInfo s1 (dto_symbol order) (dto_exchange order) of
        Inl e \<Rightarrow> (Inl e, s1)
      | Inr None \<Rightarrow> (Inl TypeError, s1)
      | Inr (Some symbol) \<Rightarrow>
     (let quoteAssetAmount = dto_amount order * currentPrice;
          baseAssetAmount = (if isCoinm (dto_exchange order)
                             then (dto_amount order * quoteAsset_minAmount symbol) / currentPrice
                             else dto_amount order);
          feePerc = getUserFee taker (dto_exchange order);
          fee = marketFee order symbol currentPrice;
          orderData = marketOrderData env order usr currentPrice quoteAssetAmount fee feePerc
      in case orderModel_create s1 orderData of
           Inl e \<Rightarrow> (Inl e, s1)
         | Inr s2 \<Rightarrow>
             (if isFutures (dto_exchange order)
              then (case processFuturesPosition env s2 orderData leverage symbol of
                      (s3, orderInDb) \<Rightarrow>
                        (Inr \<lparr>r_orderId = o_id orderInDb, r_status = o_status orderInDb\<rparr>, s3))
              else
                (let balance =
                       (if dto_side order = SELL
                        then [(quoteAsset_name symbol, quoteAssetAmount - fee, 0),
                              (baseAsset_name symbol, - dto_amount order, 0)]
                        else [(baseAsset_name symbol, baseAssetAmount - fee, 0),
                              (quoteAsset_name symbol, - quoteAssetAmount, 0)])
                 in (Inr \<lparr>r_orderId = o_id orderData, r_status = o_status orderData\<rparr>,
                     updateBalance s2 (u_id usr) balance))))))"

text \<open>
  \<open>mapOrderDocumentToDataType\<close> (lines 757-781): the copy of a stored order that goes into
  the projection. It takes over every field of the model but \<open>feePerc\<close>.
\<close>

definition mapOrderDocumentToDataType :: "Order \<Rightarrow> Order" where
  "mapOrderDocumentToDataType p =
     \<lparr>o_id = o_id p,
      o_amount = o_amount p,
      o_filledAmount = o_filledAmount p,
      o_filledQuoteAmount = o_filledQuoteAmount p,
      o_quoteAmount = o_quoteAmount p,
      o_price = o_price p,
      o_avgFilledPrice = o_avgFilledPrice p,
      o_fee = o_fee p,
      o_feePerc = None,
      o_symbol = o_symbol p,
      o_user = o_user p,
      o_exchange = o_exchange p,
      o_status = o_status p,
      o_type = o_type p,
      o_side = o_side p,
      o_externalId = o_externalId p,
      o_reduceOnly = o_reduceOnly p,
      o_positionSide = o_positionSide p\<rparr>"

text \<open>
  \<open>OrderService.createLimitOrder\<close> (lines 1434-1491); \<open>pushPosition\<close> puts the mapped copy
  of the stored order into the projection.
\<close>

definition createLimitOrder ::
  "env \<Rightarrow> engine \<Rightarrow> CreateOrderDto \<Rightarrow> User \<Rightarrow> (error + CreateOrderResponse) \<times> engine" where
  "createLimitOrder env s order usr =
     (case getExchangeInfo s (dto_symbol order) (dto_exchange order) of
        Inl e \<Rightarrow> (Inl e, s)
      | Inr None \<Rightarrow> (Inl TypeError, s)
      | Inr (Some symbol) \<Rightarrow>
     (let quoteAssetAmount = dto_amount order * dto_price order;
          orderInDb = \<lparr>o_id = e_newOrderId env,
                       o_amount = dto_amount order,
                       o_filledAmount = 0,
                       o_filledQuoteAmount = 0,
                       o_quoteAmount = quoteAssetAmount,
                       o_price = dto_price order,
                       o_avgFilledPrice = 0,
                       o_fee = 0,
                       o_feePerc = Some (getUserFee maker (dto_exchange order)),
                       o_symbol = dto_symbol order,
                       o_user = u_id usr,
                       o_exchange = dto_exchange order,
                       o_status = CREATED,
                       o_type = dto_type order,
                       o_side = dto_side order,
                       o_externalId = dto_externalId order,
                       o_reduceOnly = dto_reduceOnly order,
                       o_positionSide = dto_positionSide order\<rparr>
      in case orderModel_create s orderInDb of
           Inl e \<Rightarrow> (Inl e, s)
         | Inr s1 \<Rightarrow>
             (let balance =
                    (if \<not> isFutures (dto_exchange order)
                     then (if dto_side order = SELL
                           then [(baseAsset_name symbol, - dto_amount order, dto_amount order)]
                           else [(quoteAsset_name symbol, - quoteAssetAmount, quoteAssetAmount)])
                     else []);
                  s2 = updateBalance s1 (u_id usr) balance;
                  s3 = setOrder s2 (mapOrderDocumentToDataType orderInDb);
                  s4 = watchAdd s3 (symKey (dto_symbol order) (dto_exchange order))
                         (dto_externalId order)
              in (Inr \<lparr>r_orderId = o_id orderInDb, r_status = o_status orderInDb\<rparr>, s4))))"

text \<open>
  The effective type of a request (lines 152-157): a market order, or a limit order whose
  price crosses the current price, is a market order.
\<close>

definition marketable :: "CreateOrderDto \<Rightarrow> rat \<Rightarrow> bool" where
  "marketable order currentPrice =
     (dto_type order = MARKET \<or>
      (dto_side order = BUY \<and> dto_price order > currentPrice) \<or>
      (dto_side order = SELL \<and> dto_price order < currentPrice))"

text \<open>
  The balance test \<open>!balance || balance.free < need\<close> of \<open>createOrder\<close>.
\<close>

definition lacks :: "Wallet option \<Rightarrow> rat \<Rightarrow> bool" where
  "lacks balance need = (case balance of None \<Rightarrow> True | Some w \<Rightarrow> w_free w < need)"

text \<open>
  The margin of a derivatives request is a quotient by the price and the leverage, which
  the request and the leverage row may give as zero. A JavaScript quotient is a finite
  number, \<open>Infinity\<close>, \<open>-Infinity\<close> or \<open>NaN\<close>: a non-zero number over zero is infinite with
  the sign of the number, zero over zero is \<open>NaN\<close>. \<open>Math.max(0, NaN)\<close> is \<open>NaN\<close>, and a
  comparison with \<open>NaN\<close> is false. Every zero is taken as the positive zero.
\<close>

datatype jsnum = JFinite rat | JInfinity | JNegInfinity | JNaN

definition jdiv :: "jsnum \<Rightarrow> rat \<Rightarrow> jsnum" where
  "jdiv x d =
     (case x of
        JFinite a \<Rightarrow> (if d \<noteq> 0 then JFinite (a / d)
                      else if a > 0 then JInfinity else if a < 0 then JNegInfinity else JNaN)
      | JInfinity \<Rightarrow> (if d \<ge> 0 then JInfinity else JNegInfinity)
      | JNegInfinity \<Rightarrow> (if d \<ge> 0 then JNegInfinity else JInfinity)
      | JNaN \<Rightarrow> JNaN)"

definition jmax0 :: "jsnum \<Rightarrow> jsnum" where
  "jmax0 x =
     (case x of
        JFinite a \<Rightarrow> JFinite (max 0 a)
      | JInfinity \<Rightarrow> JInfinity
      | JNegInfinity \<Rightarrow> JFinite 0
      | JNaN \<Rightarrow> JNaN)"

definition lacksJ :: "Wallet option \<Rightarrow> jsnum \<Rightarrow> bool" where
  "lacksJ balance need =
     (case balance of
        None \<Rightarrow> True
      | Some w \<Rightarrow> (case need of
                    JFinite x \<Rightarrow> w_free w < x
                  | JInfinity \<Rightarrow> True
                  | JNegInfinity \<Rightarrow> False
                  | JNaN \<Rightarrow> False))"

text \<open>The balance check of a derivatives request (lines 178-217).\<close>

definition futuresNotEnough ::
  "CreateOrderDto \<Rightarrow> ExchangeInfo \<Rightarrow> Position option \<Rightarrow> Wallet option \<Rightarrow> Wallet option
     \<Rightarrow> rat \<Rightarrow> rat \<Rightarrow> bool" where
  "futuresNotEnough order symbol found baseAssetBalance quoteAssetBalance usedPrice leverage =
     (let coinm = isCoinm (dto_exchange order);
          opening = (if coinm
                     then lacksJ baseAssetBalance
                            (jdiv (jdiv (JFinite (dto_amount order * quoteAsset_minAmount symbol))
                                     usedPrice) leverage)
                     else lacksJ quoteAssetBalance
                            (jdiv (JFinite (dto_amount order * usedPrice)) leverage))
      in case found of
           None \<Rightarrow> opening
         | Some pos \<Rightarrow>
             if (p_positionSide pos = LONG \<and> dto_side order = BUY) \<or>
                (p_positionSide pos = SHORT \<and> dto_side order = SELL)
             then opening
             else if ((p_positionSide pos = SHORT \<and> dto_side order = BUY) \<or>
                      (p_positionSide pos = LONG \<and> dto_side order = SELL)) \<and>
                     \<not> dto_reduceOnly order
             then (let diff =
                         (if coinm
                          then jmax0 (jdiv (jdiv (JFinite ((dto_amount order - p_positionAmt pos)
                                                             * quoteAsset_minAmount symbol))
                                              (dto_price order)) leverage)
                          else jmax0 (jdiv (JFinite ((dto_amount order - p_positionAmt pos)
                                                       * dto_price order)) leverage))
                   in if coinm then lacksJ baseAssetBalance diff else lacksJ quoteAssetBalance diff)
             else False)"

text \<open>
  The leverage of a derivatives request (lines 123-140 of \<open>createOrder\<close>): the row for
  the user, the symbol and the position side of the request is created with leverage 1
  when it is missing. A spot request has leverage 1 and touches no row.
\<close>

definition ensureLeverage :: "engine \<Rightarrow> User \<Rightarrow> CreateOrderDto \<Rightarrow> rat \<times> engine" where
  "ensureLeverage s usr order0 =
     (if isFutures (dto_exchange order0)
      then (case find (\<lambda>l. l_user l = u_id usr \<and> l_symbol l = dto_symbol order0 \<and>
                            l_side l = dto_positionSide order0) (leverageModel s) of
              None \<Rightarrow> (1, s\<lparr>leverageModel := leverageModel s @
                              [\<lparr>l_user = u_id usr, l_symbol = dto_symbol order0,
                                l_side = dto_positionSide order0, l_leverage = 1,
                                l_locked = False\<rparr>]\<rparr>)
            | Some l \<Rightarrow> (l_leverage l, s))
      else (1, s))"

text \<open>
  The routing of \<open>createOrder\<close> once the current price is known (lines 151-273): the
  effective type, the hedge-mode check, the balance checks, and the hand-over to the
  market or the limit path.
\<close>

definition routeOrder ::
  "env \<Rightarrow> engine \<Rightarrow> CreateOrderDto \<Rightarrow> User \<Rightarrow> ExchangeInfo \<Rightarrow> Wallet option \<Rightarrow> Wallet option
     \<Rightarrow> rat \<Rightarrow> rat \<Rightarrow> (error + CreateOrderResponse) \<times> engine" where
  "routeOrder env s2 order0 usr symbol baseAssetBalance quoteAssetBalance leverage currentPrice =
     (let order = order0\<lparr>dto_type := (if marketable order0 currentPrice then MARKET else LIMIT)\<rparr>;
          usedPrice = (if dto_type order = MARKET then currentPrice else dto_price order)
      in if isFutures (dto_exchange order) then
           (let hedge = (case hedgeModel s2 (u_id usr) of None \<Rightarrow> False | Some h \<Rightarrow> h)
            in if hedge \<and> dto_positionSide order = Some BOTH
               then (Inl (HttpException ''Position side must be specified in hedge mode'' 400), s2)
               else
                 (let found = find (\<lambda>p. p_user p = u_id usr \<and>
                                        (if hedge then Some (p_positionSide p) = dto_positionSide order
                                         else True))
                                (getPositionsBySymbols [dto_symbol order] (currentPositions s2))
                  in if futuresNotEnough order symbol found baseAssetBalance quoteAssetBalance
                          usedPrice leverage
                     then (Inl (HttpException ''Not enough balance'' 400), s2)
                     else if found = None \<and> dto_reduceOnly order
                     then (Inl (HttpException ''Reduce order is rejected'' 400), s2)
                     else if dto_type order = LIMIT
                     then createLimitOrder env s2 order usr
                     else processMarketOrder env s2 order usr leverage))
         else if marketable order currentPrice then
           (if dto_side order = BUY \<and> lacks quoteAssetBalance (dto_amount order * currentPrice)
            then (Inl (HttpException ''Not enough balance'' 400), s2)
            else if dto_side order = SELL \<and> lacks baseAssetBalance (dto_amount order)
            then (Inl (HttpException ''Not enough balance'' 400), s2)
            else processMarketOrder env s2 order usr leverage)
         else
           (if dto_side order = BUY \<and> lacks quoteAssetBalance (dto_amount order * dto_price order)
            then (Inl (HttpException ''Not enough balance'' 400), s2)
            else if dto_side order = SELL \<and> lacks baseAssetBalance (dto_amount order)
            then (Inl (HttpException ''Not enough balance'' 400), s2)
            else createLimitOrder env s2 order usr))"

text \<open>
  \<open>OrderService.createOrder\<close> (lines 109-274): the user, the symbol data (read of
  \<open>symbol.baseAsset\<close> on missing data raises a \<open>TypeError\<close>), the balances, the leverage,
  the current price, then the routing above.
\<close>

definition createOrder ::
  "env \<Rightarrow> engine \<Rightarrow> CreateOrderDto \<Rightarrow> (error + CreateOrderResponse) \<times> engine" where
  "createOrder env s order0 =
     (case getUserByKeyAndSecretOrThrow s (dto_key order0) (dto_secret order0) of
        Inl e \<Rightarrow> (Inl e, s)
      | Inr usr \<Rightarrow>
     (case getExchangeInfo s (dto_symbol order0) (dto_exchange order0) of
        Inl e \<Rightarrow> (Inl e, s)
      | Inr None \<Rightarrow> (Inl TypeError, s)
      | Inr (Some symbol) \<Rightarrow>
     (let baseAssetBalance = walletModel s (u_id usr, baseAsset_name symbol);
          quoteAssetBalance = walletModel s (u_id usr, quoteAsset_name symbol)
      in case ensureLeverage s usr order0 of (leverage, s1) \<Rightarrow>
     (case getLatestPriceInExchange env s1 (dto_symbol order0) (dto_exchange order0) of
        (Inl e, s2) \<Rightarrow> (Inl e, s2)
      | (Inr currentPrice, s2) \<Rightarrow>
          routeOrder env s2 order0 usr symbol baseAssetBalance quoteAssetBalance leverage
            currentPrice))))"

section \<open>Cancellation\<close>

text \<open>
  \<open>OrderService.processCancelOrder\<close> (lines 640-718). The new status is stored before the
  symbol data is read; the asset name comes from the symbol data or, without it, from
  \<open>getQuoteAsset\<close>/\<open>getBaseAsset\<close>, which throw "Asset not found".
\<close>

definition terminal :: "OrderStatus \<Rightarrow> bool" where
  "terminal st = (st = FILLED \<or> st = CANCELED \<or> st = EXPIRED)"

definition processCancelOrder ::
  "engine \<Rightarrow> string \<Rightarrow> User \<Rightarrow> bool \<Rightarrow> (error + string) \<times> engine" where
  "processCancelOrder s orderId usr expired =
     (case find (\<lambda>d. o_externalId d = orderId \<and> o_user d = u_id usr) (orderModel s) of
        None \<Rightarrow> (Inl (HttpException ''Unknown order'' 400), s)
      | Some order0 \<Rightarrow>
          if terminal (o_status order0) then (Inl (HttpException ''Unknown order'' 400), s)
          else
            (let order = order0\<lparr>o_status := (if expired then EXPIRED else CANCELED)\<rparr>;
                 s1 = s\<lparr>orderModel :=
                        updateFirst (\<lambda>d. o_id d = o_id order)
                          (\<lambda>d. d\<lparr>o_status := o_status order\<rparr>) (orderModel s)\<rparr>;
                 key = symKey (o_symbol order) (o_exchange order);
                 finish = (\<lambda>s2. removeOrder (watchDrop s2 key (o_externalId order)) order)
             in if o_type order = LIMIT then
                  (case getExchangeInfo s1 (o_symbol order) (o_exchange order) of
                     Inl e \<Rightarrow> (Inl e, s1)
                   | Inr None \<Rightarrow> (Inl (HttpException ''Asset not found'' 400), s1)
                   | Inr (Some symbol) \<Rightarrow>
                       (let asset = (if o_side order = BUY then quoteAsset_name symbol
                                     else baseAsset_name symbol);
                            amount0 = (if o_side order = BUY
                                       then o_quoteAmount order - o_filledQuoteAmount order
                                       else o_amount order - o_filledAmount order);
                            amount = (if isFutures (o_exchange order) then 0 else amount0);
                            s2 = (if amount \<noteq> 0
                                  then updateBalance s1 (u_id usr) [(asset, amount, - amount)]
                                  else s1)
                        in (Inr ''canceled'', finish s2)))
                else (Inr ''canceled'', finish s1)))"

text \<open>The two entry points of cancellation (lines 404-429).\<close>

definition cancelOrderByKeySecretExternalIdAndSymbol ::
  "engine \<Rightarrow> string \<Rightarrow> string \<Rightarrow> string \<Rightarrow> bool \<Rightarrow> (error + string) \<times> engine" where
  "cancelOrderByKeySecretExternalIdAndSymbol s key secret extId expired =
     (case getUserByKeyAndSecretOrThrow s key secret of
        Inl e \<Rightarrow> (Inl e, s)
      | Inr usr \<Rightarrow> processCancelOrder s extId usr expired)"

definition cancelOrderByKeySecretIdAndSymbol ::
  "engine \<Rightarrow> string \<Rightarrow> string \<Rightarrow> string \<Rightarrow> bool \<Rightarrow> (error + string) \<times> engine" where
  "cancelOrderByKeySecretIdAndSymbol s key secret orderId expired =
     (case getUserByKeyAndSecretOrThrow s key secret of
        Inl e \<Rightarrow> (Inl e, s)
      | Inr usr \<Rightarrow>
          (case find (\<lambda>d. o_id d = orderId) (orderModel s) of
             None \<Rightarrow> (Inl TypeError, s)
           | Some order \<Rightarrow> processCancelOrder s (o_externalId order) usr expired))"

section \<open>Liquidation\<close>



section \<open>Ticker intake and matching\<close>

text \<open>
  \<open>processTickerQueue\<close> starts \<open>closeFuturePosition\<close> and \<open>processLimitOrder\<close> without
  awaiting them; what it does itself is to choose the candidates and the order in which
  their processing is started. The model returns that sequence of calls.
\<close>

datatype Dispatch = CloseFuturePosition Position | ProcessLimitOrder Order Tick

text \<open>
  The body of the loop of \<open>processTickerQueue\<close> for one entry of the batch (lines
  1799-1847). \<open>Array.prototype.sort\<close> is stable; a comparator \<open>b - a\<close> sorts in descending
  order.
\<close>

definition processSymbol ::
  "ExchangeEnum \<Rightarrow> Order list \<Rightarrow> Position list \<Rightarrow> string \<times> Tick \<Rightarrow> Dispatch list" where
  "processSymbol ex positions futures entry =
     (case entry of (smb, data) \<Rightarrow>
       (let isFuturesExchange = isFutures ex;
            filteredFutures = filter (\<lambda>p. p_symbol p = smb) futures;
            longPositions = sort_key p_liquidationPrice
              (filter (\<lambda>p. p_positionSide p = LONG \<and> p_liquidationPrice p \<ge> tk_bestBid data)
                 filteredFutures);
            shortPositions = sort_key (\<lambda>p. - p_liquidationPrice p)
              (filter (\<lambda>p. p_positionSide p = SHORT \<and> p_liquidationPrice p \<le> tk_bestAsk data)
                 filteredFutures);
            filterPositions = filter (\<lambda>d. o_symbol d = smb) positions;
            sellPositions = sort_key o_price
              (filter (\<lambda>d. o_side d = SELL \<and> o_price d \<le> tk_bestBid data \<and>
                           (isFuturesExchange \<or> bidQty data > 0)) filterPositions);
            buyPositions = sort_key (\<lambda>d. - o_price d)
              (filter (\<lambda>d. o_side d = BUY \<and> o_price d \<ge> tk_bestAsk data \<and>
                           (isFuturesExchange \<or> askQty data > 0)) filterPositions)
        in map CloseFuturePosition (longPositions @ shortPositions) @
           map (\<lambda>d. ProcessLimitOrder d data) (sellPositions @ buyPositions)))"

text \<open>\<open>OrderService.processTickerQueue\<close> (lines 1780-1848).\<close>

definition processTickerQueue ::
  "engine \<Rightarrow> ExchangeEnum \<Rightarrow> (string \<times> Tick) list \<Rightarrow> Dispatch list" where
  "processTickerQueue s ex tickerData =
     (let positions = filter (\<lambda>d. o_exchange d = ex \<and>
                                  (o_status d = CREATED \<or> o_status d = PARTIALLY_FILLED) \<and>
                                  o_type d = LIMIT)
                        (getOrdersBySymbols (map fst tickerData) (currentOrders s));
          futures = filter (\<lambda>p. p_exchange p = ex \<and> p_status p = PositionNew)
                      (getPositionsBySymbols (map fst tickerData) (currentPositions s))
      in concat (map (processSymbol ex positions futures) tickerData))"

text \<open>
  The signature of a ticker (line 1877): the renderings of five numbers, concatenated.
  The conversion of a number to its string is a parameter.
\<close>

definition signature :: "(rat \<Rightarrow> string) \<Rightarrow> Ticker \<Rightarrow> string" where
  "signature render t =
     render (bestAsk t) @ render (bestBid t) @ render (bestAskQnt t) @ render (bestBidQnt t)
       @ render (t_price t)"

definition tickerTimeOf :: "Ticker \<Rightarrow> int" where
  "tickerTimeOf t = (case eventTime t of None \<Rightarrow> t_time t | Some e \<Rightarrow> e)"

text \<open>The body of the loop of \<open>processTickers\<close> (lines 1858-1890).\<close>

definition tickerStep ::
  "(rat \<Rightarrow> string) \<Rightarrow> int \<Rightarrow> ExchangeEnum \<Rightarrow> Ticker
     \<Rightarrow> engine \<times> (string \<times> Tick) list \<Rightarrow> engine \<times> (string \<times> Tick) list" where
  "tickerStep render time ex t acc =
     (case acc of (s, tickerData) \<Rightarrow>
       (let key = symKey (t_symbol t) ex;
            tickerTime = tickerTimeOf t
        in if (case watchSymbols s key of None \<Rightarrow> {} | Some hs \<Rightarrow> hs) = {} then (s, tickerData)
           else if tickerTime < (case tickerTimeMap s key of None \<Rightarrow> 0 | Some v \<Rightarrow> v)
           then (s, tickerData)
           else if tickerTime + newDataLimit < time
           then (s\<lparr>tickerTimeMap := (tickerTimeMap s)(key \<mapsto> time),
                    symbolPriceMap := (symbolPriceMap s)(key := None)\<rparr>, tickerData)
           else
             (let s1 = s\<lparr>tickerTimeMap := (tickerTimeMap s)(key \<mapsto> tickerTime)\<rparr>
              in if tickerSignatureMap s1 key = Some (signature render t) then (s1, tickerData)
                 else
                   (s1\<lparr>tickerSignatureMap := (tickerSignatureMap s1)(key \<mapsto> signature render t),
                       symbolPriceMap := (symbolPriceMap s1)(key \<mapsto> Some (t_price t))\<rparr>,
                    jmap_set (t_symbol t)
                      \<lparr>tk_bestBid = bestBid t, tk_bestAsk = bestAsk t,
                        bidQty = bestBidQnt t, askQty = bestAskQnt t,
                        tk_time = tickerTime\<rparr> tickerData))))"

text \<open>
  \<open>OrderService.processTickers\<close> (lines 1850-1894): the new state and the calls that the
  batch starts.
\<close>

definition processTickers ::
  "(rat \<Rightarrow> string) \<Rightarrow> env \<Rightarrow> engine \<Rightarrow> ExchangeEnum \<Rightarrow> Ticker list \<Rightarrow> engine \<times> Dispatch list" where
  "processTickers render env s ex tickers =
     (let tickerTime = (case tickers of [] \<Rightarrow> 0 | t # _ \<Rightarrow> tickerTimeOf t)
      in if tickerTime < (case tickerTimeMap s (exchangeName ex) of None \<Rightarrow> 0 | Some v \<Rightarrow> v)
         then (s, [])
         else
           (case fold (tickerStep render (e_now env) ex) tickers
                   (s\<lparr>tickerTimeMap := (tickerTimeMap s)(exchangeName ex \<mapsto> tickerTime)\<rparr>, [])
            of (s2, tickerData) \<Rightarrow>
                 (s2, if tickerData \<noteq> [] then processTickerQueue s2 ex tickerData else [])))"

section \<open>Liquidation price formula of the specification\<close>

text \<open>The formula of the specification (section 4.G, "Liquidation price"), in its words.\<close>

definition spec_s :: "PositionSide \<Rightarrow> rat" where
  "spec_s side = (case side of LONG \<Rightarrow> - 1 | SHORT \<Rightarrow> 1 | BOTH \<Rightarrow> 1)"

definition spec_L :: "rat \<Rightarrow> PositionSide \<Rightarrow> rat \<Rightarrow> rat \<Rightarrow> rat" where
  "spec_L entry side feePerc leverage =
     (if leverage > 1
      then entry * (1 + (1 / leverage) * spec_s side) * (1 + feePerc * spec_s side)
      else (case side of LONG \<Rightarrow> entry * feePerc | _ \<Rightarrow> entry / feePerc))"

section \<open>Observations\<close>

text \<open>The balance of a user in an asset (an absent wallet row holds nothing), and the part
  of a spot limit order that is still reserved, with the asset it is reserved in.\<close>

definition freeOf :: "engine \<Rightarrow> string \<Rightarrow> string \<Rightarrow> rat" where
  "freeOf s uid asset = (case walletModel s (uid, asset) of None \<Rightarrow> 0 | Some w \<Rightarrow> w_free w)"

definition lockedOf :: "engine \<Rightarrow> string \<Rightarrow> string \<Rightarrow> rat" where
  "lockedOf s uid asset = (case walletModel s (uid, asset) of None \<Rightarrow> 0 | Some w \<Rightarrow> w_locked w)"

definition unfilledReservation :: "Order \<Rightarrow> rat" where
  "unfilledReservation order =
     (if o_side order = BUY then o_quoteAmount order - o_filledQuoteAmount order
      else o_amount order - o_filledAmount order)"

definition reservationAsset :: "Order \<Rightarrow> ExchangeInfo \<Rightarrow> string" where
  "reservationAsset order symbol =
     (if o_side order = BUY then quoteAsset_name symbol else baseAsset_name symbol)"


definition leverageOf :: "engine \<Rightarrow> string \<Rightarrow> string \<Rightarrow> PositionSide option \<Rightarrow> rat" where
  "leverageOf s uid smb side =
     (case find (\<lambda>l. l_user l = uid \<and> l_symbol l = smb \<and> l_side l = side) (leverageModel s) of
        None \<Rightarrow> 1
      | Some l \<Rightarrow> l_leverage l)"









text \<open>The invariant of the wallet rows.\<close>

definition walletsNonNegative :: "engine \<Rightarrow> bool" where
  "walletsNonNegative s =
     (\<forall>k w. walletModel s k = Some w \<longrightarrow> 0 \<le> w_free w \<and> 0 \<le> w_locked w)"

section \<open>Scenarios\<close>

text \<open>Concrete states and requests on which the properties below are exercised.\<close>

definition userA :: User where
  "userA = \<lparr>u_id = ''u1'', u_key = ''k1'', u_secret = ''s1''\<rparr>"

definition btcusdt :: ExchangeInfo where
  "btcusdt = \<lparr>baseAsset_name = ''BTC'', baseAsset_minAmount = 1 / 1000,
              quoteAsset_name = ''USDT'', quoteAsset_minAmount = 100\<rparr>"

definition engine0 :: engine where
  "engine0 = \<lparr>users = [userA],
              walletModel = Map.empty((''u1'', ''USDT'') \<mapsto> \<lparr>w_free = 10000, w_locked = 0\<rparr>),
              orderModel = [],
              positionModel = [],
              leverageModel = [],
              hedgeModel = Map.empty,
              symbolInfo = (\<lambda>k. if fst k = ''BTCUSDT'' then Found btcusdt else NoResponse),
              watchSymbols = Map.empty,
              tickerTimeMap = Map.empty,
              symbolPriceMap = Map.empty,
              tickerSignatureMap = Map.empty,
              currentOrders = Map.empty,
              currentPositions = Map.empty\<rparr>"

definition env0 :: env where
  "env0 = \<lparr>e_now = 1000000, e_latestPrice = Some \<lparr>br_status = ok, br_data = Some 50000\<rparr>,
           e_newOrderId = ''o1'', e_newPositionId = ''p1'', e_newUuid = ''uuid1''\<rparr>"

definition limitBuy :: CreateOrderDto where
  "limitBuy = \<lparr>dto_key = ''k1'', dto_secret = ''s1'', dto_symbol = ''BTCUSDT'', dto_amount = 1 / 10,
               dto_type = LIMIT, dto_exchange = binance, dto_side = BUY, dto_externalId = ''x1'',
               dto_price = 50000, dto_reduceOnly = False, dto_positionSide = None\<rparr>"

definition marketableBuy :: CreateOrderDto where
  "marketableBuy = limitBuy\<lparr>dto_price := 50001\<rparr>"

definition order1 :: Order where
  "order1 = \<lparr>o_id = ''o1'', o_amount = 1 / 10, o_filledAmount = 0, o_filledQuoteAmount = 0,
             o_quoteAmount = 5000, o_price = 50000, o_avgFilledPrice = 0, o_fee = 0,
             o_feePerc = Some (1 / 1000), o_symbol = ''BTCUSDT'', o_user = ''u1'',
             o_exchange = binance, o_status = CREATED, o_type = LIMIT, o_side = BUY,
             o_externalId = ''x1'', o_reduceOnly = False, o_positionSide = None\<rparr>"

definition engine1 :: engine where
  "engine1 = engine0\<lparr>
     walletModel := Map.empty((''u1'', ''USDT'') \<mapsto> \<lparr>w_free = 5000, w_locked = 5000\<rparr>),
     orderModel := [order1],
     watchSymbols := Map.empty(''BTCUSDT@binance'' \<mapsto> {''x1''}),
     tickerTimeMap := Map.empty(''BTCUSDT@binance'' \<mapsto> 1000000),
     symbolPriceMap := Map.empty(''BTCUSDT@binance'' \<mapsto> Some 50000),
     currentOrders := Map.empty(''BTCUSDT'' \<mapsto> [(''x1'', mapOrderDocumentToDataType order1)])\<rparr>"

definition engineHedge :: engine where
  "engineHedge = engine0\<lparr>hedgeModel := Map.empty(''u1'' \<mapsto> True)\<rparr>"

definition hedgeOrder :: CreateOrderDto where
  "hedgeOrder = \<lparr>dto_key = ''k1'', dto_secret = ''s1'', dto_symbol = ''BTCUSDT'',
                 dto_amount = 1 / 100, dto_type = MARKET, dto_exchange = binanceUsdm,
                 dto_side = BUY, dto_externalId = ''h1'', dto_price = 50000,
                 dto_reduceOnly = False, dto_positionSide = None\<rparr>"

definition positionLong :: Position where
  "positionLong = \<lparr>p_id = ''p0'', p_symbol = ''BTCUSDT'', p_margin = 10, p_entryPrice = 100,
                   p_closePrice = 0, p_liquidationPrice = 22491 / 250, p_positionSide = LONG,
                   p_positionAmt = 1, p_user = ''u1'', p_exchange = binanceUsdm,
                   p_status = PositionNew, p_profit = - (1 / 25), p_fee = 1 / 25,
                   p_leverage = 10, p_uuid = ''uuid0''\<rparr>"

definition engineLong :: engine where
  "engineLong = engine0\<lparr>
     walletModel := Map.empty((''u1'', ''USDT'') \<mapsto> \<lparr>w_free = 1000, w_locked = 10\<rparr>),
     positionModel := [positionLong],
     watchSymbols := Map.empty(''BTCUSDT@binanceUsdm'' \<mapsto> {''p0''}),
     currentPositions := Map.empty(''BTCUSDT'' \<mapsto> [(''uuid0'', positionLong)])\<rparr>"

definition reduceOrder :: Order where
  "reduceOrder = \<lparr>o_id = ''o9'', o_amount = 3, o_filledAmount = 3, o_filledQuoteAmount = 300,
                  o_quoteAmount = 300, o_price = 100, o_avgFilledPrice = 100, o_fee = 3 / 25,
                  o_feePerc = Some (1 / 2500), o_symbol = ''BTCUSDT'', o_user = ''u1'',
                  o_exchange = binanceUsdm, o_status = FILLED, o_type = MARKET, o_side = SELL,
                  o_externalId = ''r1'', o_reduceOnly = True, o_positionSide = Some BOTH\<rparr>"

definition positionLongCoinm :: Position where
  "positionLongCoinm = positionLong\<lparr>p_margin := 1 / 500, p_entryPrice := 50000,
                          p_positionAmt := 10, p_exchange := binanceCoinm\<rparr>"

definition engineLongCoinm :: engine where
  "engineLongCoinm = engine0\<lparr>
     walletModel := Map.empty((''u1'', ''BTC'') \<mapsto> \<lparr>w_free = 1, w_locked = 1 / 500\<rparr>),
     positionModel := [positionLongCoinm],
     watchSymbols := Map.empty(''BTCUSDT@binanceCoinm'' \<mapsto> {''p0''}),
     currentPositions := Map.empty(''BTCUSDT'' \<mapsto> [(''uuid0'', positionLongCoinm)])\<rparr>"

definition reduceOrderCoinm :: Order where
  "reduceOrderCoinm = reduceOrder\<lparr>o_amount := 30, o_filledAmount := 30,
                        o_filledQuoteAmount := 1500000, o_quoteAmount := 1500000,
                        o_price := 50000, o_avgFilledPrice := 50000, o_fee := 3 / 100000,
                        o_feePerc := Some (1 / 2000), o_exchange := binanceCoinm\<rparr>"











text \<open>
  The rendering of an integer-valued number as a string (its decimal digits), for the
  tickers of the scenarios.
\<close>

definition digitChar :: "nat \<Rightarrow> char" where
  "digitChar d = ''0123456789'' ! d"

fun natString :: "nat \<Rightarrow> string" where
  "natString n = (if n < 10 then [digitChar n] else natString (n div 10) @ [digitChar (n mod 10)])"

definition renderInt :: "rat \<Rightarrow> string" where
  "renderInt x = (if x < 0 then ''-'' else []) @ natString (nat \<lfloor>\<bar>x\<bar>\<rfloor>)"

definition ticker0 :: Ticker where
  "ticker0 = \<lparr>bestAsk = 50001, bestBid = 50000, bestAskQnt = 2, bestBidQnt = 1,
              t_symbol = ''BTCUSDT'', t_time = 1000000, t_price = 50000, eventTime = None\<rparr>"

definition engineTick :: engine where
  "engineTick = engine1\<lparr>
     tickerSignatureMap := Map.empty(''BTCUSDT@binance'' \<mapsto> signature renderInt ticker0)\<rparr>"

definition envFresh :: env where
  "envFresh = env0\<lparr>e_now := 1000500\<rparr>"

definition envLate :: env where
  "envLate = env0\<lparr>e_now := 1031000\<rparr>"

definition engineThin :: engine where
  "engineThin = engine0\<lparr>
     walletModel := Map.empty((''u1'', ''USDT'') \<mapsto> \<lparr>w_free = 500, w_locked = 0\<rparr>)\<rparr>"

definition thinMarketBuy :: CreateOrderDto where
  "thinMarketBuy = hedgeOrder\<lparr>dto_externalId := ''t1''\<rparr>"

definition orderFilled :: Order where
  "orderFilled = order1\<lparr>o_id := ''o2'', o_symbol := ''ETHUSDT'', o_status := FILLED,
                        o_filledAmount := 1 / 10, o_filledQuoteAmount := 5000,
                        o_avgFilledPrice := 50000\<rparr>"

definition engineTwo :: engine where
  "engineTwo = engine1\<lparr>orderModel := [order1, orderFilled]\<rparr>"








definition engineShadow :: engine where
  "engineShadow = engine1\<lparr>orderModel := [orderFilled, order1]\<rparr>"

section \<open>Auxiliary facts\<close>

lemmas scenario_defs = userA_def btcusdt_def engine0_def env0_def limitBuy_def marketableBuy_def

lemmas engine_defs =
  createOrder_def ensureLeverage_def routeOrder_def getUserByKeyAndSecretOrThrow_def getExchangeInfo_def isFutures_def isCoinm_def
  getLatestPriceInExchange_def falsy_def symKey_def marketable_def lacks_def
  createLimitOrder_def processMarketOrder_def marketFee_def marketOrderData_def orderModel_create_def getUserFee_def
  updateBalance_def increaseUserBalance_def incWallet_def setOrder_def watchAdd_def
  mapOrderDocumentToDataType_def newDataLimit_def spotMakerFee_def usdmMakerFee_def coinmMakerFee_def Let_def

lemma orderModel_incWallet [simp]: "orderModel (incWallet uid u s) = orderModel s"
  by (cases u) (simp add: incWallet_def)

lemma orderModel_increaseUserBalance [simp]:
  "orderModel (increaseUserBalance s uid d) = orderModel s"
  unfolding increaseUserBalance_def by (induction d arbitrary: s) simp_all

lemma orderModel_updateBalance [simp]: "orderModel (updateBalance s uid d) = orderModel s"
  by (simp add: updateBalance_def)

lemma updateBalance_frame: "\<exists>W. updateBalance s uid d = s\<lparr>walletModel := W\<rparr>"
proof -
  have "\<exists>W. fold (incWallet uid) d s = s\<lparr>walletModel := W\<rparr>"
  proof (induction d arbitrary: s)
    case Nil
    have "s = s\<lparr>walletModel := walletModel s\<rparr>" by simp
    then show ?case by (metis fold_simps(1))
  next
    case (Cons u d)
    obtain W0 where w0: "incWallet uid u s = s\<lparr>walletModel := W0\<rparr>"
      by (cases u) (simp add: incWallet_def)
    from Cons.IH [of "incWallet uid u s"] obtain W where
      "fold (incWallet uid) d (incWallet uid u s) = (incWallet uid u s)\<lparr>walletModel := W\<rparr>"
      by blast
    then have "fold (incWallet uid) (u # d) s = s\<lparr>walletModel := W\<rparr>"
      by (simp add: w0)
    then show ?case by blast
  qed
  moreover have "s = s\<lparr>walletModel := walletModel s\<rparr>" by simp
  ultimately show ?thesis
    unfolding updateBalance_def increaseUserBalance_def by metis
qed

lemma updateBalance_fields [simp]:
  "positionModel (updateBalance s uid d) = positionModel s"
  "currentPositions (updateBalance s uid d) = currentPositions s"
  "currentOrders (updateBalance s uid d) = currentOrders s"
  "watchSymbols (updateBalance s uid d) = watchSymbols s"
  "leverageModel (updateBalance s uid d) = leverageModel s"
  using updateBalance_frame [of s uid d] by auto

lemma orderModel_setPosition [simp]: "orderModel (setPosition s p) = orderModel s"
  by (simp add: setPosition_def)

lemma orderModel_removePosition [simp]: "orderModel (removePosition s p) = orderModel s"
  by (simp add: removePosition_def split: option.splits)

lemma orderModel_watchAdd [simp]: "orderModel (watchAdd s k h) = orderModel s"
  by (simp add: watchAdd_def)

lemma orderModel_watchDrop [simp]: "orderModel (watchDrop s k h) = orderModel s"
  by (simp add: watchDrop_def Let_def)

lemma orderModel_setLeverageLocked [simp]:
  "orderModel (setLeverageLocked b s u y sd) = orderModel s"
  by (simp add: setLeverageLocked_def)

lemma orderModel_addPositionToWatchList [simp]:
  "orderModel (addPositionToWatchList s p) = orderModel s"
  by (simp add: addPositionToWatchList_def)

lemma orderModel_positionModel_create [simp]:
  "orderModel (positionModel_create s p) = orderModel s"
  by (simp add: positionModel_create_def)

lemma orderModel_finishPosition [simp]:
  "orderModel (finishPosition s ord cur asset f l) = orderModel s"
  by (simp add: finishPosition_def Let_def)


lemma finishPosition_currentOrders [simp]:
  "currentOrders (finishPosition s ord cur asset f l) = currentOrders s"
  by (simp add: finishPosition_def Let_def setPosition_def removePosition_def split: option.splits)


lemma glp_idem:
  assumes "getLatestPriceInExchange env s smb ex = (Inr cp, s1)"
  shows "getLatestPriceInExchange env s1 smb ex = (Inr cp, s1)"
proof -
  define key where "key = symKey smb ex"
  define cur where "cur = (case symbolPriceMap s key of None \<Rightarrow> None | Some v \<Rightarrow> v)"
  define tt where "tt = (case tickerTimeMap s key of None \<Rightarrow> 0 | Some t \<Rightarrow> t)"
  show ?thesis
  proof (cases "falsy cur \<or> e_now env - tt > newDataLimit")
    case False
    with assms have "s1 = s"
      by (simp add: getLatestPriceInExchange_def Let_def key_def cur_def tt_def)
    with assms show ?thesis by simp
  next
    case True
    with assms obtain request where r: "e_latestPrice env = Some request"
      by (cases "e_latestPrice env")
         (simp_all add: getLatestPriceInExchange_def Let_def key_def cur_def tt_def)
    from assms True r have nf: "\<not> falsy (br_data request)"
      and cp: "cp = the (br_data request)"
      and s1: "s1 = s\<lparr>tickerTimeMap := (tickerTimeMap s)(key \<mapsto> e_now env),
                       symbolPriceMap := (symbolPriceMap s)(key \<mapsto> br_data request)\<rparr>"
      by (simp_all add: getLatestPriceInExchange_def Let_def key_def cur_def tt_def
                   split: if_splits)
    show ?thesis
      unfolding getLatestPriceInExchange_def Let_def key_def [symmetric]
      using nf by (simp add: s1 cp newDataLimit_def)
  qed
qed





lemma glp_leverage:
  "getLatestPriceInExchange env (s\<lparr>leverageModel := X\<rparr>) smb ex
     = (case getLatestPriceInExchange env s smb ex of (r, t) \<Rightarrow> (r, t\<lparr>leverageModel := X\<rparr>))"
  by (auto simp: getLatestPriceInExchange_def Let_def split: option.splits)

lemma marketable_MARKET [simp]: "marketable (order0\<lparr>dto_type := MARKET\<rparr>) cp"
  by (simp add: marketable_def)

lemma marketable_LIMIT:
  "\<not> marketable order0 cp \<Longrightarrow> \<not> marketable (order0\<lparr>dto_type := LIMIT\<rparr>) cp"
  by (simp add: marketable_def)

lemma ensureLeverage_frame:
  assumes "ensureLeverage s usr order0 = (lev, s1)"
  shows "\<exists>X. s1 = s\<lparr>leverageModel := X\<rparr>"
proof (cases "lev = lev \<and> s1 = s")
  case True
  then have "s1 = s\<lparr>leverageModel := leverageModel s\<rparr>" by simp
  then show ?thesis by blast
next
  case False
  with assms show ?thesis
    by (auto simp: ensureLeverage_def split: if_splits option.splits)
qed


lemma find_SomeD: "find P xs = Some x \<Longrightarrow> P x"
  by (induction xs) (auto split: if_splits)

lemma map_of_jmap_delete: "map_of (jmap_delete k m) k = None"
  by (induction m) (auto simp: jmap_delete_def)

lemma processCancelOrder_open:
  assumes f: "find (\<lambda>d. o_externalId d = extId \<and> o_user d = u_id usr) (orderModel s) = Some order"
      and st: "o_status order = CREATED \<or> o_status order = PARTIALLY_FILLED"
      and ty: "o_type order = LIMIT"
      and sy: "symbolInfo s (o_symbol order, o_exchange order) = Found symbol"
  shows "\<exists>s'. processCancelOrder s extId usr expired = (Inr ''canceled'', s') \<and>
           (\<exists>x. x = (if isFutures (o_exchange order) then 0 else unfilledReservation order) \<and>
             freeOf s' (u_id usr) (reservationAsset order symbol)
               = freeOf s (u_id usr) (reservationAsset order symbol) + x \<and>
             lockedOf s' (u_id usr) (reservationAsset order symbol)
               = lockedOf s (u_id usr) (reservationAsset order symbol) - x \<and>
             (\<forall>k. k \<noteq> (u_id usr, reservationAsset order symbol)
                   \<longrightarrow> walletModel s' k = walletModel s k) \<and>
             (isFutures (o_exchange order) \<longrightarrow> walletModel s' = walletModel s)) \<and>
           map_of (case currentOrders s' (o_symbol order) of None \<Rightarrow> [] | Some m \<Rightarrow> m) extId = None \<and>
           extId \<notin> (case watchSymbols s' (symKey (o_symbol order) (o_exchange order)) of
                       None \<Rightarrow> {} | Some hs \<Rightarrow> hs)"
proof -
  define order1 where "order1 = order\<lparr>o_status := (if expired then EXPIRED else CANCELED)\<rparr>"
  define s1 where "s1 = s\<lparr>orderModel :=
                        updateFirst (\<lambda>d. o_id d = o_id order1)
                          (\<lambda>d. d\<lparr>o_status := o_status order1\<rparr>) (orderModel s)\<rparr>"
  define x where "x = (if isFutures (o_exchange order) then 0 else unfilledReservation order)"
  define asset where "asset = reservationAsset order symbol"
  define s2 where "s2 = (if x \<noteq> 0 then updateBalance s1 (u_id usr) [(asset, x, - x)] else s1)"
  define key where "key = symKey (o_symbol order) (o_exchange order)"
  define s' where "s' = removeOrder (watchDrop s2 key (o_externalId order1)) order1"
  have e: "o_externalId order = extId"
    using find_SomeD [OF f] by simp
  have nt: "\<not> terminal (o_status order)"
    using st by (auto simp: terminal_def)
  have gi: "getExchangeInfo s1 (o_symbol order) (o_exchange order) = Inr (Some symbol)"
    by (simp add: getExchangeInfo_def s1_def sy)
  have r: "processCancelOrder s extId usr expired = (Inr ''canceled'', s')"
    unfolding processCancelOrder_def
    using f nt ty sy
    by (simp add: Let_def getExchangeInfo_def order1_def s1_def s'_def s2_def x_def asset_def
          key_def unfilledReservation_def reservationAsset_def)
  have w': "walletModel s' = walletModel s2"
    by (simp add: s'_def removeOrder_def watchDrop_def Let_def split: option.splits)
  have w1: "walletModel s1 = walletModel s"
    by (simp add: s1_def)
  have w2: "walletModel s2 =
              (if x \<noteq> 0
               then (walletModel s)((u_id usr, asset) \<mapsto>
                      (case walletModel s (u_id usr, asset) of
                         None \<Rightarrow> \<lparr>w_free = x, w_locked = - x\<rparr>
                       | Some w \<Rightarrow> \<lparr>w_free = w_free w + x, w_locked = w_locked w + - x\<rparr>))
               else walletModel s)"
    by (simp add: s2_def updateBalance_def increaseUserBalance_def incWallet_def w1)
  have b: "freeOf s' (u_id usr) asset = freeOf s (u_id usr) asset + x"
          "lockedOf s' (u_id usr) asset = lockedOf s (u_id usr) asset - x"
          "\<forall>k. k \<noteq> (u_id usr, asset) \<longrightarrow> walletModel s' k = walletModel s k"
          "isFutures (o_exchange order) \<longrightarrow> walletModel s' = walletModel s"
    by (auto simp: freeOf_def lockedOf_def w' w2 x_def split: option.splits)
  have c: "map_of (case currentOrders s' (o_symbol order) of None \<Rightarrow> [] | Some m \<Rightarrow> m) extId = None"
    by (simp add: s'_def removeOrder_def order1_def e map_of_jmap_delete split: option.splits)
  have ws: "watchSymbols s' = watchSymbols (watchDrop s2 key extId)"
    by (simp add: s'_def removeOrder_def order1_def e split: option.splits)
  have d: "extId \<notin> (case watchSymbols s' key of None \<Rightarrow> {} | Some hs \<Rightarrow> hs)"
    by (simp add: ws watchDrop_def Let_def split: option.splits)
  from r b c d show ?thesis
    unfolding asset_def key_def x_def by blast
qed

lemma scenario1_limit_buy: "snd (createOrder env0 engine0 limitBuy) = engine1"
  by (simp add: scenario_defs engine_defs engine1_def order1_def)

declare ndigits.simps [simp del]

lemma ndigits_small: "n < 10 \<Longrightarrow> ndigits n = 1"
  by (subst ndigits.simps) simp

lemma ndigits_numeral:
  "ndigits (numeral k) = (if (numeral k :: nat) < 10 then 1 else Suc (ndigits (numeral k div 10)))"
  by (rule ndigits.simps)

lemmas futures_defs =
  processFuturesPosition_def getPositionsBySymbols_def jmap_values_def finishPosition_def
  realizedProfit_def removePosition_def setPosition_def jmap_delete_def
  lockLeverage_def unLockLeverage_def setLeverageLocked_def watchDrop_def
  createPositionFromOrder_def addPositionToWatchList_def positionModel_create_def
  liquidationPrice_def closesPosition_def math_round_def expNotation_def toFixed_def intPartLength_def
  ndigits_small ndigits_numeral Number_EPSILON_def
  futuresNotEnough_def jdiv_def jmax0_def lacksJ_def

lemmas futures_scenario_defs =
  engineHedge_def hedgeOrder_def positionLong_def engineLong_def reduceOrder_def
  positionLongCoinm_def engineLongCoinm_def reduceOrderCoinm_def

lemma floor_rat_numeral_divide [simp]:
  "\<lfloor>numeral a / numeral b :: rat\<rfloor> = numeral a div numeral b"
  using floor_divide_of_int_eq [of "numeral a" "numeral b", where ?'a = rat] by simp

lemma floor_rat_minus_numeral_divide [simp]:
  "\<lfloor>- (numeral a / numeral b) :: rat\<rfloor> = - numeral a div numeral b"
  using floor_divide_of_int_eq [of "- numeral a" "numeral b", where ?'a = rat] by simp

lemma cancel_by_externalId_unknown_400:
  assumes "getUserByKeyAndSecretOrThrow s key secret = Inr usr"
      and "case find (\<lambda>d. o_externalId d = extId \<and> o_user d = u_id usr) (orderModel s) of
             None \<Rightarrow> True | Some d \<Rightarrow> terminal (o_status d)"
  shows "cancelOrderByKeySecretExternalIdAndSymbol s key secret extId expired
           = (Inl (HttpException ''Unknown order'' 400), s)"
  using assms
  by (simp add: cancelOrderByKeySecretExternalIdAndSymbol_def processCancelOrder_def
           split: option.splits)

lemma glp_frame:
  assumes "getLatestPriceInExchange env s smb ex = (r, t)"
  shows "orderModel t = orderModel s \<and> walletModel t = walletModel s \<and>
         positionModel t = positionModel s \<and> currentOrders t = currentOrders s \<and>
         currentPositions t = currentPositions s \<and> watchSymbols t = watchSymbols s \<and>
         leverageModel t = leverageModel s \<and> hedgeModel t = hedgeModel s \<and>
         symbolInfo t = symbolInfo s \<and> users t = users s"
proof (cases "e_latestPrice env")
  case None
  with assms show ?thesis
    by (simp add: getLatestPriceInExchange_def Let_def split: if_splits)
next
  case (Some request)
  with assms have "t = s \<or>
      t = s\<lparr>tickerTimeMap := (tickerTimeMap s)(symKey smb ex \<mapsto> e_now env),
             symbolPriceMap := (symbolPriceMap s)(symKey smb ex \<mapsto> br_data request)\<rparr>"
    by (simp add: getLatestPriceInExchange_def Let_def split: if_splits)
  then show ?thesis by auto
qed

lemma ensureLeverage_fields:
  assumes "ensureLeverage s usr order0 = (lev, s1)"
  shows "orderModel s1 = orderModel s \<and> walletModel s1 = walletModel s \<and>
         positionModel s1 = positionModel s \<and> currentOrders s1 = currentOrders s \<and>
         currentPositions s1 = currentPositions s \<and> hedgeModel s1 = hedgeModel s \<and>
         symbolPriceMap s1 = symbolPriceMap s \<and> tickerTimeMap s1 = tickerTimeMap s"
  using ensureLeverage_frame [OF assms] by auto

lemma createOrder_no_price_400:
  assumes u: "getUserByKeyAndSecretOrThrow s (dto_key order) (dto_secret order) = Inr usr"
      and sy: "symbolInfo s (dto_symbol order, dto_exchange order) = Found symbol"
      and c: "falsy (case symbolPriceMap s (symKey (dto_symbol order) (dto_exchange order)) of
                       None \<Rightarrow> None | Some v \<Rightarrow> v) \<or>
              e_now env - (case tickerTimeMap s (symKey (dto_symbol order) (dto_exchange order)) of
                             None \<Rightarrow> 0 | Some t \<Rightarrow> t) > newDataLimit"
      and r: "e_latestPrice env = Some request" and n: "falsy (br_data request)"
  shows "\<exists>s'. createOrder env s order
                = (Inl (HttpException ''Failed to get latest price from exchange'' 400), s') \<and>
              orderModel s' = orderModel s \<and> walletModel s' = walletModel s \<and>
              positionModel s' = positionModel s \<and> currentOrders s' = currentOrders s \<and>
              currentPositions s' = currentPositions s"
proof -
  obtain lev s1 where el: "ensureLeverage s usr order = (lev, s1)"
    by (cases "ensureLeverage s usr order") auto
  note fr = ensureLeverage_fields [OF el]
  obtain t where g: "getLatestPriceInExchange env s1 (dto_symbol order) (dto_exchange order)
                       = (Inl (HttpException ''Failed to get latest price from exchange'' 400), t)"
    using c r n fr by (simp add: getLatestPriceInExchange_def Let_def)
  have "createOrder env s order
          = (Inl (HttpException ''Failed to get latest price from exchange'' 400), t)"
    unfolding createOrder_def Let_def
    using u sy el g by (simp add: getExchangeInfo_def)
  with glp_frame [OF g] fr show ?thesis by simp
qed

lemma createOrder_hedge_both_400:
  assumes u: "getUserByKeyAndSecretOrThrow s (dto_key order) (dto_secret order) = Inr usr"
      and sy: "symbolInfo s (dto_symbol order, dto_exchange order) = Found symbol"
      and fu: "isFutures (dto_exchange order)"
      and h: "hedgeModel s (u_id usr) = Some True"
      and b: "dto_positionSide order = Some BOTH"
      and p: "fst (getLatestPriceInExchange env s (dto_symbol order) (dto_exchange order)) = Inr cp"
  shows "\<exists>s'. createOrder env s order
                = (Inl (HttpException ''Position side must be specified in hedge mode'' 400), s') \<and>
              orderModel s' = orderModel s \<and> walletModel s' = walletModel s \<and>
              positionModel s' = positionModel s \<and> currentOrders s' = currentOrders s \<and>
              currentPositions s' = currentPositions s"
proof -
  obtain lev s1 where el: "ensureLeverage s usr order = (lev, s1)"
    by (cases "ensureLeverage s usr order") auto
  note fr = ensureLeverage_fields [OF el]
  from ensureLeverage_frame [OF el] obtain X where X: "s1 = s\<lparr>leverageModel := X\<rparr>" by blast
  obtain r t where g: "getLatestPriceInExchange env s1 (dto_symbol order) (dto_exchange order) = (r, t)"
    by (cases "getLatestPriceInExchange env s1 (dto_symbol order) (dto_exchange order)") auto
  have "fst (getLatestPriceInExchange env s1 (dto_symbol order) (dto_exchange order))
          = fst (getLatestPriceInExchange env s (dto_symbol order) (dto_exchange order))"
    unfolding X by (simp add: glp_leverage split: prod.splits)
  with g p have r: "r = Inr cp" by simp
  note k = glp_frame [OF g]
  have hh: "hedgeModel t (u_id usr) = Some True"
    using k fr h by simp
  have ro: "routeOrder env t order usr symbol (walletModel s (u_id usr, baseAsset_name symbol))
              (walletModel s (u_id usr, quoteAsset_name symbol)) lev cp
            = (Inl (HttpException ''Position side must be specified in hedge mode'' 400), t)"
    unfolding routeOrder_def Let_def using fu b hh by simp
  have "createOrder env s order
          = (Inl (HttpException ''Position side must be specified in hedge mode'' 400), t)"
    unfolding createOrder_def Let_def
    using u sy el g r ro by (simp add: getExchangeInfo_def)
  with k fr show ?thesis by simp
qed






declare natString.simps [simp del]

lemma tickerStep_duplicate:
  assumes sg: "tickerSignatureMap s (symKey (t_symbol t) ex) = Some (signature render t)"
  shows "\<exists>tm pm. tickerStep render time ex t (s, td)
                   = (s\<lparr>tickerTimeMap := tm, symbolPriceMap := pm\<rparr>, td) \<and>
                 (\<not> tickerTimeOf t + newDataLimit < time \<longrightarrow> pm = symbolPriceMap s) \<and>
                 (\<forall>k. k \<noteq> symKey (t_symbol t) ex \<longrightarrow> pm k = symbolPriceMap s k)"
proof -
  define key where "key = symKey (t_symbol t) ex"
  have id: "s = s\<lparr>tickerTimeMap := tickerTimeMap s, symbolPriceMap := symbolPriceMap s\<rparr>"
    by simp
  consider (a) "(case watchSymbols s key of None \<Rightarrow> {} | Some hs \<Rightarrow> hs) = {} \<or>
                tickerTimeOf t < (case tickerTimeMap s key of None \<Rightarrow> 0 | Some v \<Rightarrow> v)"
    | (b) "\<not> ((case watchSymbols s key of None \<Rightarrow> {} | Some hs \<Rightarrow> hs) = {} \<or>
                tickerTimeOf t < (case tickerTimeMap s key of None \<Rightarrow> 0 | Some v \<Rightarrow> v))"
          "tickerTimeOf t + newDataLimit < time"
    | (c) "\<not> ((case watchSymbols s key of None \<Rightarrow> {} | Some hs \<Rightarrow> hs) = {} \<or>
                tickerTimeOf t < (case tickerTimeMap s key of None \<Rightarrow> 0 | Some v \<Rightarrow> v))"
          "\<not> tickerTimeOf t + newDataLimit < time"
    by blast
  then show ?thesis
  proof cases
    case a
    then have "tickerStep render time ex t (s, td) = (s, td)"
      by (auto simp: tickerStep_def Let_def key_def)
    with id show ?thesis by metis
  next
    case b
    then have "tickerStep render time ex t (s, td)
                 = (s\<lparr>tickerTimeMap := (tickerTimeMap s)(key \<mapsto> time),
                      symbolPriceMap := (symbolPriceMap s)(key := None)\<rparr>, td)"
      by (simp add: tickerStep_def Let_def key_def)
    moreover have "\<forall>k. k \<noteq> key \<longrightarrow> ((symbolPriceMap s)(key := None)) k = symbolPriceMap s k"
      by simp
    ultimately show ?thesis using b(2) unfolding key_def by blast
  next
    case c
    then have "tickerStep render time ex t (s, td)
                 = (s\<lparr>tickerTimeMap := (tickerTimeMap s)(key \<mapsto> tickerTimeOf t),
                      symbolPriceMap := symbolPriceMap s\<rparr>, td)"
      using sg by (simp add: tickerStep_def Let_def key_def)
    then show ?thesis by blast
  qed
qed

lemma walletsNonNegative_cong:
  "walletModel s' = walletModel s \<Longrightarrow> walletsNonNegative s' = walletsNonNegative s"
  by (simp add: walletsNonNegative_def)

lemma incWallet_nonneg:
  assumes "walletsNonNegative s"
      and "case walletModel s (uid, a) of
             None \<Rightarrow> 0 \<le> df \<and> 0 \<le> dl
           | Some w \<Rightarrow> 0 \<le> w_free w + df \<and> 0 \<le> w_locked w + dl"
  shows "walletsNonNegative (incWallet uid (a, df, dl) s)"
  using assms
  by (auto simp: walletsNonNegative_def incWallet_def split: option.splits if_splits)

lemma incWallet_lookup:
  "walletModel (incWallet uid (a, df, dl) s) (uid, b)
     = (if b = a
        then Some (case walletModel s (uid, a) of
                     None \<Rightarrow> \<lparr>w_free = df, w_locked = dl\<rparr>
                   | Some w \<Rightarrow> \<lparr>w_free = w_free w + df, w_locked = w_locked w + dl\<rparr>)
        else walletModel s (uid, b))"
  by (simp add: incWallet_def)

lemma credit_then_debit_nonneg:
  assumes nn: "walletsNonNegative s"
      and w: "walletModel s (uid, b) = Some wb" and enough: "need \<le> w_free wb"
      and c: "0 \<le> credit"
  shows "walletsNonNegative (updateBalance s uid [(a, credit, 0), (b, - need, 0)])"
proof -
  have n1: "walletsNonNegative (incWallet uid (a, credit, 0) s)"
    using nn c by (intro incWallet_nonneg) (auto simp: walletsNonNegative_def split: option.splits)
  have "case walletModel (incWallet uid (a, credit, 0) s) (uid, b) of
          None \<Rightarrow> 0 \<le> - need \<and> (0::rat) \<le> 0
        | Some w' \<Rightarrow> 0 \<le> w_free w' + - need \<and> 0 \<le> w_locked w' + 0"
    using nn w enough c
    by (auto simp: incWallet_lookup walletsNonNegative_def split: option.splits)
  from incWallet_nonneg [OF n1 this] show ?thesis
    by (simp add: updateBalance_def increaseUserBalance_def)
qed

lemma reserve_nonneg:
  assumes nn: "walletsNonNegative s"
      and w: "walletModel s (uid, a) = Some wa" and enough: "x \<le> w_free wa" and x: "0 \<le> x"
  shows "walletsNonNegative (updateBalance s uid [(a, - x, x)])"
proof -
  have "case walletModel s (uid, a) of
          None \<Rightarrow> 0 \<le> - x \<and> 0 \<le> x
        | Some w' \<Rightarrow> 0 \<le> w_free w' + - x \<and> 0 \<le> w_locked w' + x"
    using nn w enough x by (auto simp: walletsNonNegative_def)
  from incWallet_nonneg [OF nn this] show ?thesis
    by (simp add: updateBalance_def increaseUserBalance_def)
qed

lemma lacks_Some: "\<not> lacks b need \<Longrightarrow> \<exists>w. b = Some w \<and> need \<le> w_free w"
  by (cases b) (auto simp: lacks_def)

lemma spot_fee: "\<not> isFutures ex \<Longrightarrow> getUserFee ty ex = 1 / 1000"
  by (simp add: getUserFee_def spotMakerFee_def)

lemma spot_not_coinm: "\<not> isFutures ex \<Longrightarrow> \<not> isCoinm ex"
  by (auto simp: isFutures_def isCoinm_def)

lemma orderModel_create_wallets:
  "orderModel_create s d = Inr s' \<Longrightarrow> walletModel s' = walletModel s"
  by (auto simp: orderModel_create_def split: if_splits)

lemma updateBalance_wallet_cong:
  assumes "walletModel s' = walletModel s"
  shows "walletModel (updateBalance s' uid upds) = walletModel (updateBalance s uid upds)"
proof -
  have "\<And>s s'. walletModel s' = walletModel s \<Longrightarrow>
          walletModel (fold (incWallet uid) upds s') = walletModel (fold (incWallet uid) upds s)"
  proof (induction upds)
    case Nil
    then show ?case by simp
  next
    case (Cons u upds)
    have "walletModel (incWallet uid u s') = walletModel (incWallet uid u s)"
      using Cons.prems by (cases u) (simp add: incWallet_def)
    from Cons.IH [OF this] show ?case by simp
  qed
  from this [OF assms] show ?thesis
    by (simp add: updateBalance_def increaseUserBalance_def assms)
qed

lemma processMarketOrder_spot_nonneg:
  assumes nn: "walletsNonNegative s"
      and sp: "\<not> isFutures (dto_exchange order)"
      and am: "0 \<le> dto_amount order" and cp: "0 \<le> cp"
      and g: "getLatestPriceInExchange env s (dto_symbol order) (dto_exchange order) = (Inr cp, s)"
      and sy: "getExchangeInfo s (dto_symbol order) (dto_exchange order) = Inr (Some symbol)"
      and buy: "dto_side order \<noteq> SELL \<longrightarrow>
                \<not> lacks (walletModel s (u_id usr, quoteAsset_name symbol)) (dto_amount order * cp)"
      and sell: "dto_side order = SELL \<longrightarrow>
                \<not> lacks (walletModel s (u_id usr, baseAsset_name symbol)) (dto_amount order)"
  shows "walletsNonNegative (snd (processMarketOrder env s order usr lev))"
proof -
  define d where "d = marketOrderData env order usr cp (dto_amount order * cp)
     (marketFee order symbol cp) (getUserFee taker (dto_exchange order))"
  have nc: "\<not> isCoinm (dto_exchange order)" using sp by (rule spot_not_coinm)
  show ?thesis
  proof (cases "orderModel_create s d")
    case (Inl e)
    then have "snd (processMarketOrder env s order usr lev) = s"
      unfolding processMarketOrder_def Let_def using g sy by (simp add: d_def)
    with nn show ?thesis by simp
  next
    case (Inr s2)
    note w2 = orderModel_create_wallets [OF Inr]
    show ?thesis
    proof (cases "dto_side order = SELL")
      case True
      have r: "snd (processMarketOrder env s order usr lev)
                 = updateBalance s2 (u_id usr)
                     [(quoteAsset_name symbol,
                       dto_amount order * cp - marketFee order symbol cp, 0),
                      (baseAsset_name symbol, - dto_amount order, 0)]"
        unfolding processMarketOrder_def Let_def using g sy sp Inr True
        by (simp add: d_def [symmetric] marketOrderData_def d_def)
      have fee: "marketFee order symbol cp = dto_amount order * cp * (1 / 1000)"
        using sp nc True by (simp add: marketFee_def Let_def spot_fee)
      from sell True obtain wb where
        wb: "walletModel s (u_id usr, baseAsset_name symbol) = Some wb"
            "dto_amount order \<le> w_free wb"
        using lacks_Some by blast
      have c: "0 \<le> dto_amount order * cp - marketFee order symbol cp"
        using am cp by (simp add: fee mult_nonneg_nonneg)
      have "walletsNonNegative (updateBalance s (u_id usr)
                     [(quoteAsset_name symbol,
                       dto_amount order * cp - marketFee order symbol cp, 0),
                      (baseAsset_name symbol, - dto_amount order, 0)])"
        by (rule credit_then_debit_nonneg [OF nn wb c])
      then show ?thesis
        unfolding r
        by (simp add: walletsNonNegative_cong [OF updateBalance_wallet_cong [OF w2]])
    next
      case False
      have r: "snd (processMarketOrder env s order usr lev)
                 = updateBalance s2 (u_id usr)
                     [(baseAsset_name symbol,
                       dto_amount order - marketFee order symbol cp, 0),
                      (quoteAsset_name symbol, - (dto_amount order * cp), 0)]"
        unfolding processMarketOrder_def Let_def using g sy sp nc Inr False
        by (simp add: d_def [symmetric] marketOrderData_def d_def)
      have fee: "marketFee order symbol cp = dto_amount order * (1 / 1000)"
        using sp nc False by (simp add: marketFee_def Let_def spot_fee)
      from buy False obtain wq where
        wq: "walletModel s (u_id usr, quoteAsset_name symbol) = Some wq"
            "dto_amount order * cp \<le> w_free wq"
        using lacks_Some by blast
      have c: "0 \<le> dto_amount order - marketFee order symbol cp"
        using am by (simp add: fee)
      have "walletsNonNegative (updateBalance s (u_id usr)
                     [(baseAsset_name symbol,
                       dto_amount order - marketFee order symbol cp, 0),
                      (quoteAsset_name symbol, - (dto_amount order * cp), 0)])"
        by (rule credit_then_debit_nonneg [OF nn wq c])
      then show ?thesis
        unfolding r
        by (simp add: walletsNonNegative_cong [OF updateBalance_wallet_cong [OF w2]])
    qed
  qed
qed

lemma createLimitOrder_spot_nonneg:
  assumes nn: "walletsNonNegative s"
      and sp: "\<not> isFutures (dto_exchange order)"
      and am: "0 \<le> dto_amount order" and pr: "0 \<le> dto_price order"
      and sy: "getExchangeInfo s (dto_symbol order) (dto_exchange order) = Inr (Some symbol)"
      and buy: "dto_side order \<noteq> SELL \<longrightarrow>
                \<not> lacks (walletModel s (u_id usr, quoteAsset_name symbol))
                         (dto_amount order * dto_price order)"
      and sell: "dto_side order = SELL \<longrightarrow>
                \<not> lacks (walletModel s (u_id usr, baseAsset_name symbol)) (dto_amount order)"
  shows "walletsNonNegative (snd (createLimitOrder env s order usr))"
proof -
  define d where "d = \<lparr>o_id = e_newOrderId env,
                       o_amount = dto_amount order,
                       o_filledAmount = 0,
                       o_filledQuoteAmount = 0,
                       o_quoteAmount = dto_amount order * dto_price order,
                       o_price = dto_price order,
                       o_avgFilledPrice = 0,
                       o_fee = 0,
                       o_feePerc = Some (getUserFee maker (dto_exchange order)),
                       o_symbol = dto_symbol order,
                       o_user = u_id usr,
                       o_exchange = dto_exchange order,
                       o_status = CREATED,
                       o_type = dto_type order,
                       o_side = dto_side order,
                       o_externalId = dto_externalId order,
                       o_reduceOnly = dto_reduceOnly order,
                       o_positionSide = dto_positionSide order\<rparr>"
  show ?thesis
  proof (cases "orderModel_create s d")
    case (Inl e)
    then have "snd (createLimitOrder env s order usr) = s"
      unfolding createLimitOrder_def Let_def using sy by (simp add: d_def)
    with nn show ?thesis by simp
  next
    case (Inr s1)
    note w1 = orderModel_create_wallets [OF Inr]
    define bal where "bal = (if dto_side order = SELL
                           then [(baseAsset_name symbol, - dto_amount order, dto_amount order)]
                           else [(quoteAsset_name symbol, - (dto_amount order * dto_price order),
                                  dto_amount order * dto_price order)])"
    have r: "walletModel (snd (createLimitOrder env s order usr))
               = walletModel (updateBalance s1 (u_id usr) bal)"
      unfolding createLimitOrder_def Let_def using sy sp Inr
      by (simp add: d_def [symmetric] bal_def setOrder_def watchAdd_def)
    have "walletsNonNegative (updateBalance s (u_id usr) bal)"
    proof (cases "dto_side order = SELL")
      case True
      from sell True obtain wb where
        wb: "walletModel s (u_id usr, baseAsset_name symbol) = Some wb"
            "dto_amount order \<le> w_free wb"
        using lacks_Some by blast
      from reserve_nonneg [OF nn wb am] True show ?thesis by (simp add: bal_def)
    next
      case False
      from buy False obtain wq where
        wq: "walletModel s (u_id usr, quoteAsset_name symbol) = Some wq"
            "dto_amount order * dto_price order \<le> w_free wq"
        using lacks_Some by blast
      have "0 \<le> dto_amount order * dto_price order"
        using am pr by (rule mult_nonneg_nonneg)
      from reserve_nonneg [OF nn wq this] False show ?thesis by (simp add: bal_def)
    qed
    then have "walletsNonNegative (updateBalance s1 (u_id usr) bal)"
      by (simp add: walletsNonNegative_cong [OF updateBalance_wallet_cong [OF w1]])
    then show ?thesis
      by (simp add: walletsNonNegative_cong [OF r])
  qed
qed

lemma routeOrder_spot_nonneg:
  assumes nn: "walletsNonNegative s2"
      and sp: "\<not> isFutures (dto_exchange order)"
      and am: "0 \<le> dto_amount order" and pr: "0 \<le> dto_price order" and cp: "0 \<le> cp"
      and g: "getLatestPriceInExchange env s2 (dto_symbol order) (dto_exchange order) = (Inr cp, s2)"
      and sy: "getExchangeInfo s2 (dto_symbol order) (dto_exchange order) = Inr (Some symbol)"
  shows "walletsNonNegative
           (snd (routeOrder env s2 order usr symbol
                   (walletModel s2 (u_id usr, baseAsset_name symbol))
                   (walletModel s2 (u_id usr, quoteAsset_name symbol)) lev cp))"
proof (cases "marketable order cp")
  case True
  define order' where "order' = order\<lparr>dto_type := MARKET\<rparr>"
  have f: "dto_exchange order' = dto_exchange order" "dto_symbol order' = dto_symbol order"
          "dto_amount order' = dto_amount order" "dto_side order' = dto_side order"
    by (simp_all add: order'_def)
  show ?thesis
  proof (cases "(dto_side order = BUY \<and>
                   lacks (walletModel s2 (u_id usr, quoteAsset_name symbol)) (dto_amount order * cp)) \<or>
                (dto_side order = SELL \<and>
                   lacks (walletModel s2 (u_id usr, baseAsset_name symbol)) (dto_amount order))")
    case rej: True
    then have "snd (routeOrder env s2 order usr symbol
                   (walletModel s2 (u_id usr, baseAsset_name symbol))
                   (walletModel s2 (u_id usr, quoteAsset_name symbol)) lev cp) = s2"
      unfolding routeOrder_def Let_def using True sp by auto
    with nn show ?thesis by simp
  next
    case acc: False
    then have "routeOrder env s2 order usr symbol
                   (walletModel s2 (u_id usr, baseAsset_name symbol))
                   (walletModel s2 (u_id usr, quoteAsset_name symbol)) lev cp
               = processMarketOrder env s2 order' usr lev"
      unfolding routeOrder_def Let_def using True sp by (auto simp: order'_def)
    moreover have "walletsNonNegative (snd (processMarketOrder env s2 order' usr lev))"
    proof (rule processMarketOrder_spot_nonneg [OF nn, where cp = cp and symbol = symbol])
      show "\<not> isFutures (dto_exchange order')" using sp by (simp add: f)
      show "0 \<le> dto_amount order'" using am by (simp add: f)
      show "0 \<le> cp" by (rule cp)
      show "getLatestPriceInExchange env s2 (dto_symbol order') (dto_exchange order') = (Inr cp, s2)"
        using g by (simp add: f)
      show "getExchangeInfo s2 (dto_symbol order') (dto_exchange order') = Inr (Some symbol)"
        using sy by (simp add: f)
      show "dto_side order' \<noteq> SELL \<longrightarrow>
              \<not> lacks (walletModel s2 (u_id usr, quoteAsset_name symbol)) (dto_amount order' * cp)"
        using acc by (cases "dto_side order") (auto simp: f)
      show "dto_side order' = SELL \<longrightarrow>
              \<not> lacks (walletModel s2 (u_id usr, baseAsset_name symbol)) (dto_amount order')"
        using acc by (auto simp: f)
    qed
    ultimately show ?thesis by simp
  qed
next
  case False
  define order' where "order' = order\<lparr>dto_type := LIMIT\<rparr>"
  have f: "dto_exchange order' = dto_exchange order" "dto_symbol order' = dto_symbol order"
          "dto_amount order' = dto_amount order" "dto_side order' = dto_side order"
          "dto_price order' = dto_price order"
    by (simp_all add: order'_def)
  have nm: "\<not> marketable order' cp"
    unfolding order'_def using False by (rule marketable_LIMIT)
  show ?thesis
  proof (cases "(dto_side order = BUY \<and>
                   lacks (walletModel s2 (u_id usr, quoteAsset_name symbol))
                     (dto_amount order * dto_price order)) \<or>
                (dto_side order = SELL \<and>
                   lacks (walletModel s2 (u_id usr, baseAsset_name symbol)) (dto_amount order))")
    case rej: True
    then have "snd (routeOrder env s2 order usr symbol
                   (walletModel s2 (u_id usr, baseAsset_name symbol))
                   (walletModel s2 (u_id usr, quoteAsset_name symbol)) lev cp) = s2"
      unfolding routeOrder_def Let_def using False nm sp by (auto simp: order'_def)
    with nn show ?thesis by simp
  next
    case acc: False
    then have "routeOrder env s2 order usr symbol
                   (walletModel s2 (u_id usr, baseAsset_name symbol))
                   (walletModel s2 (u_id usr, quoteAsset_name symbol)) lev cp
               = createLimitOrder env s2 order' usr"
      unfolding routeOrder_def Let_def using False nm sp by (auto simp: order'_def)
    moreover have "walletsNonNegative (snd (createLimitOrder env s2 order' usr))"
    proof (rule createLimitOrder_spot_nonneg [OF nn, where symbol = symbol])
      show "\<not> isFutures (dto_exchange order')" using sp by (simp add: f)
      show "0 \<le> dto_amount order'" using am by (simp add: f)
      show "0 \<le> dto_price order'" using pr by (simp add: f)
      show "getExchangeInfo s2 (dto_symbol order') (dto_exchange order') = Inr (Some symbol)"
        using sy by (simp add: f)
      show "dto_side order' \<noteq> SELL \<longrightarrow>
              \<not> lacks (walletModel s2 (u_id usr, quoteAsset_name symbol))
                       (dto_amount order' * dto_price order')"
        using acc by (cases "dto_side order") (auto simp: f)
      show "dto_side order' = SELL \<longrightarrow>
              \<not> lacks (walletModel s2 (u_id usr, baseAsset_name symbol)) (dto_amount order')"
        using acc by (auto simp: f)
    qed
    ultimately show ?thesis by simp
  qed
qed



















text \<open>
  On a spot exchange \<open>createOrder\<close> keeps every wallet row at \<open>free \<ge> 0\<close> and
  \<open>locked \<ge> 0\<close>, whether the request is rejected, settled at once as a market order or
  registered as a limit order with its reservation: its balance checks ask for all that is
  debited.
\<close>

lemma spot_createOrder_keeps_wallets_nonnegative:
  assumes nn: "walletsNonNegative s"
      and sp: "\<not> isFutures (dto_exchange order)"
      and am: "0 \<le> dto_amount order" and pr: "0 \<le> dto_price order"
      and cpn: "\<forall>cp. fst (getLatestPriceInExchange env s (dto_symbol order) (dto_exchange order))
                       = Inr cp \<longrightarrow> 0 \<le> cp"
  shows "walletsNonNegative (snd (createOrder env s order))"
proof (cases "getUserByKeyAndSecretOrThrow s (dto_key order) (dto_secret order)")
  case (Inl e)
  then have "snd (createOrder env s order) = s" by (simp add: createOrder_def)
  with nn show ?thesis by simp
next
  case (Inr usr)
  show ?thesis
  proof (cases "symbolInfo s (dto_symbol order, dto_exchange order)")
    case NoResponse
    with Inr have "snd (createOrder env s order) = s"
      by (simp add: createOrder_def getExchangeInfo_def)
    with nn show ?thesis by simp
  next
    case NullData
    with Inr have "snd (createOrder env s order) = s"
      by (simp add: createOrder_def getExchangeInfo_def)
    with nn show ?thesis by simp
  next
    case (Found symbol)
    have el: "ensureLeverage s usr order = (1, s)"
      using sp by (simp add: ensureLeverage_def)
    obtain r s2 where
      g: "getLatestPriceInExchange env s (dto_symbol order) (dto_exchange order) = (r, s2)"
      by (cases "getLatestPriceInExchange env s (dto_symbol order) (dto_exchange order)") auto
    note k = glp_frame [OF g]
    have nn2: "walletsNonNegative s2"
      using nn k by (simp add: walletsNonNegative_def)
    show ?thesis
    proof (cases r)
      case (Inl e)
      with Inr Found el g have "snd (createOrder env s order) = s2"
        by (simp add: createOrder_def getExchangeInfo_def Let_def)
      with nn2 show ?thesis by simp
    next
      case (Inr cp)
      with cpn g have cp: "0 \<le> cp" by simp
      have g2: "getLatestPriceInExchange env s2 (dto_symbol order) (dto_exchange order) = (Inr cp, s2)"
        using g Inr glp_idem by blast
      have sy2: "getExchangeInfo s2 (dto_symbol order) (dto_exchange order) = Inr (Some symbol)"
        using Found k by (simp add: getExchangeInfo_def)
      have "createOrder env s order
              = routeOrder env s2 order usr symbol
                  (walletModel s2 (u_id usr, baseAsset_name symbol))
                  (walletModel s2 (u_id usr, quoteAsset_name symbol)) 1 cp"
        using \<open>getUserByKeyAndSecretOrThrow s (dto_key order) (dto_secret order) = Inr usr\<close>
          Found el g Inr k
        by (simp add: createOrder_def getExchangeInfo_def Let_def)
      with routeOrder_spot_nonneg [OF nn2 sp am pr cp g2 sy2, of usr 1] show ?thesis by simp
    qed
  qed
qed

section \<open>Verified properties\<close>

text \<open>
  Claim C4. For every entry price, fee rate and leverage at least 1, and for the sides
  LONG and SHORT, the liquidation price computed by the engine is
  \<open>entry * (1 + (1/leverage) * s) * (1 + feePerc * s)\<close> with \<open>s = -1\<close> for LONG and
  \<open>s = 1\<close> for SHORT when the leverage exceeds 1, and \<open>entry * feePerc\<close> for LONG,
  \<open>entry / feePerc\<close> for SHORT when the leverage is 1.
\<close>

theorem liquidationPrice_formula:
  assumes "1 \<le> leverage" and "side = LONG \<or> side = SHORT"
  shows "liquidationPrice entry side feePerc leverage = spec_L entry side feePerc leverage
       \<and> (leverage > 1 \<longrightarrow>
            liquidationPrice entry LONG feePerc leverage
              = entry * (1 + (1 / leverage) * (- 1)) * (1 + feePerc * (- 1))
          \<and> liquidationPrice entry SHORT feePerc leverage
              = entry * (1 + (1 / leverage) * 1) * (1 + feePerc * 1))
       \<and> (leverage = 1 \<longrightarrow>
            liquidationPrice entry LONG feePerc leverage = entry * feePerc
          \<and> liquidationPrice entry SHORT feePerc leverage = entry / feePerc)"
  using assms
  by (auto simp: liquidationPrice_def spec_L_def spec_s_def)

theorem liquidationPrice_formula_witness:
  "liquidationPrice 50000 LONG (1 / 2500) 10 = spec_L 50000 LONG (1 / 2500) 10
   \<and> liquidationPrice 50000 LONG (1 / 2500) 10 = 44982
   \<and> liquidationPrice 50000 SHORT (1 / 2500) 1 = 125000000"
proof -
  have a: "liquidationPrice 50000 LONG (1 / 2500) 10 = spec_L 50000 LONG (1 / 2500) 10
           \<and> liquidationPrice 50000 LONG (1 / 2500) 10 = 44982"
    using liquidationPrice_formula [of 10 LONG 50000 "1 / 2500"] by simp
  have c: "liquidationPrice 50000 SHORT (1 / 2500) 1 = 125000000"
    using liquidationPrice_formula [of 1 SHORT 50000 "1 / 2500"] by simp
  from a c show ?thesis by simp
qed



text \<open>
  Claim C5, at a failing input. The user has an open spot LIMIT BUY on BTCUSDT with
  externalId \<open>x1\<close> and a reservation of 5000 USDT, and an older FILLED order on ETHUSDT
  with the same externalId (the unique index of the store is on externalId and symbol).
  Cancelling by externalId or by the \<open>_id\<close> of the open order looks the order up by
  externalId and user alone, finds the older order first and fails with "Unknown order":
  the reservation stays locked and the open order stays in the store, in the projection
  and in the watch set. Without the older order the same call cancels the order and
  releases the 5000 USDT.
\<close>

theorem cancel_shadowed_open_order_rejected:
  "orderModel engineShadow = [orderFilled, order1] \<and>
   o_id orderFilled = ''o2'' \<and> o_externalId orderFilled = ''x1'' \<and>
   o_symbol orderFilled = ''ETHUSDT'' \<and> o_status orderFilled = FILLED \<and>
   o_user orderFilled = ''u1'' \<and>
   o_id order1 = ''o1'' \<and> o_externalId order1 = ''x1'' \<and> o_symbol order1 = ''BTCUSDT'' \<and>
   o_status order1 = CREATED \<and> o_user order1 = ''u1'' \<and>
   o_type order1 = LIMIT \<and> \<not> isFutures (o_exchange order1) \<and> o_side order1 = BUY \<and>
   unfilledReservation order1 = 5000 \<and>
   cancelOrderByKeySecretExternalIdAndSymbol engineShadow ''k1'' ''s1'' ''x1'' False
     = (Inl (HttpException ''Unknown order'' 400), engineShadow) \<and>
   cancelOrderByKeySecretIdAndSymbol engineShadow ''k1'' ''s1'' ''o1'' False
     = (Inl (HttpException ''Unknown order'' 400), engineShadow) \<and>
   freeOf engineShadow ''u1'' ''USDT'' = 5000 \<and> lockedOf engineShadow ''u1'' ''USDT'' = 5000 \<and>
   orderModel engine1 = [order1] \<and> walletModel engine1 = walletModel engineShadow \<and>
   fst (cancelOrderByKeySecretExternalIdAndSymbol engine1 ''k1'' ''s1'' ''x1'' False)
     = Inr ''canceled'' \<and>
   freeOf (snd (cancelOrderByKeySecretExternalIdAndSymbol engine1 ''k1'' ''s1'' ''x1'' False))
     ''u1'' ''USDT'' = 10000 \<and>
   lockedOf (snd (cancelOrderByKeySecretExternalIdAndSymbol engine1 ''k1'' ''s1'' ''x1'' False))
     ''u1'' ''USDT'' = 0"
  by (simp add: cancelOrderByKeySecretIdAndSymbol_def cancelOrderByKeySecretExternalIdAndSymbol_def
        getUserByKeyAndSecretOrThrow_def processCancelOrder_def terminal_def isFutures_def
        getExchangeInfo_def symKey_def updateBalance_def increaseUserBalance_def incWallet_def
        watchDrop_def removeOrder_def jmap_delete_def mapOrderDocumentToDataType_def Let_def
        unfilledReservation_def freeOf_def lockedOf_def
        engineShadow_def orderFilled_def engine1_def order1_def scenario_defs)

text \<open>
  Claim C1, at a failing input. A reduce-only SELL of 3 at price 100 (fee rate 1/2500, fee
  3 * 100 / 2500) meets a LONG position of 1 on a linear exchange: the order is cut to the
  position amount, but its fee is reduced by \<open>excess * feePerc\<close> = 2/2500, not by the fee
  of the excess \<open>excess * price * feePerc\<close> = 200/2500. On an inverse exchange (30
  contracts against a position of 10, contract size 100, price 50000, fee rate 1/2000) the
  fee is reduced by the notional of the excess, \<open>excess * quoteMinAmount / price\<close>,
  without the fee rate, and ends below zero. The cut order closes the position and takes it
  out of the projection, but the position's id stays in the watch set of the symbol, which
  a reduce-only order of exactly the position amount removes.
\<close>

theorem reduceOnly_trim_fee_refund:
  "o_reduceOnly reduceOrder \<and> p_positionAmt positionLong = 1 \<and> o_amount reduceOrder = 3 \<and>
   o_fee reduceOrder = 3 * 100 * (1 / 2500) \<and>
   o_amount (snd (processFuturesPosition env0 engineLong reduceOrder 10 btcusdt)) = 1 \<and>
   o_fee (snd (processFuturesPosition env0 engineLong reduceOrder 10 btcusdt))
     = o_fee reduceOrder - 2 * (1 / 2500) \<and>
   o_fee (snd (processFuturesPosition env0 engineLong reduceOrder 10 btcusdt))
     \<noteq> o_fee reduceOrder - 2 * 100 * (1 / 2500) \<and>
   o_reduceOnly reduceOrderCoinm \<and> p_positionAmt positionLongCoinm = 10 \<and>
   o_amount reduceOrderCoinm = 30 \<and>
   o_fee reduceOrderCoinm = ((30 * 100) / 50000) * (1 / 2000) \<and>
   o_amount (snd (processFuturesPosition env0 engineLongCoinm reduceOrderCoinm 10 btcusdt)) = 10 \<and>
   o_fee (snd (processFuturesPosition env0 engineLongCoinm reduceOrderCoinm 10 btcusdt))
     = o_fee reduceOrderCoinm - (20 * 100) / 50000 \<and>
   o_fee (snd (processFuturesPosition env0 engineLongCoinm reduceOrderCoinm 10 btcusdt))
     \<noteq> o_fee reduceOrderCoinm - ((20 * 100) / 50000) * (1 / 2000) \<and>
   o_fee (snd (processFuturesPosition env0 engineLongCoinm reduceOrderCoinm 10 btcusdt)) < 0 \<and>
   currentPositions (fst (processFuturesPosition env0 engineLong reduceOrder 10 btcusdt))
     ''BTCUSDT'' = Some [] \<and>
   watchSymbols (fst (processFuturesPosition env0 engineLong reduceOrder 10 btcusdt))
     ''BTCUSDT@binanceUsdm'' = Some {''p0''} \<and>
   watchSymbols (fst (processFuturesPosition env0 engineLong
       (reduceOrder\<lparr>o_amount := 1, o_filledAmount := 1, o_quoteAmount := 100,
                     o_filledQuoteAmount := 100, o_fee := 1 / 25\<rparr>) 10 btcusdt))
     ''BTCUSDT@binanceUsdm'' = None"
proof -
  have a: "snd (processFuturesPosition env0 engineLong reduceOrder 10 btcusdt)
             = reduceOrder\<lparr>o_fee := 149 / 1250, o_amount := 1, o_filledAmount := 1,
                            o_quoteAmount := 100, o_filledQuoteAmount := 100\<rparr>"
    by (simp add: futures_scenario_defs scenario_defs engine_defs futures_defs)
  have b: "snd (processFuturesPosition env0 engineLongCoinm reduceOrderCoinm 10 btcusdt)
             = reduceOrderCoinm\<lparr>o_fee := - (3997 / 100000), o_amount := 10, o_filledAmount := 10,
                            o_quoteAmount := 500000, o_filledQuoteAmount := 500000\<rparr>"
    by (simp add: futures_scenario_defs scenario_defs engine_defs futures_defs)
  have c: "currentPositions (fst (processFuturesPosition env0 engineLong reduceOrder 10 btcusdt))
             ''BTCUSDT'' = Some [] \<and>
           watchSymbols (fst (processFuturesPosition env0 engineLong reduceOrder 10 btcusdt))
             ''BTCUSDT@binanceUsdm'' = Some {''p0''} \<and>
           watchSymbols (fst (processFuturesPosition env0 engineLong
               (reduceOrder\<lparr>o_amount := 1, o_filledAmount := 1, o_quoteAmount := 100,
                             o_filledQuoteAmount := 100, o_fee := 1 / 25\<rparr>) 10 btcusdt))
             ''BTCUSDT@binanceUsdm'' = None"
    by (simp add: futures_scenario_defs scenario_defs engine_defs futures_defs)
  show ?thesis
    unfolding a b using c by (simp add: futures_scenario_defs)
qed

text \<open>
  Claim C8, at two failing inputs. Cancelling by \<open>_id\<close> with an id that no stored order has
  ends in the \<open>TypeError\<close> of reading \<open>order.externalId\<close> of \<open>null\<close>, not in an
  \<open>HttpException\<close> with status 400; the state is unchanged. Cancelling by the \<open>_id\<close> of
  a FILLED order whose \<open>externalId\<close> an older open order of the user on another symbol
  shares succeeds: the lookup by \<open>externalId\<close> that follows finds the open order, which is
  cancelled and whose reservation is released.
\<close>

theorem cancel_by_id_unknown_order_TypeError:
  "find (\<lambda>d. o_id d = ''missing'') (orderModel engine1) = None \<and>
   cancelOrderByKeySecretIdAndSymbol engine1 ''k1'' ''s1'' ''missing'' False
     = (Inl TypeError, engine1) \<and>
   find (\<lambda>d. o_id d = ''o2'') (orderModel engineTwo) = Some orderFilled \<and>
   o_status orderFilled = FILLED \<and>
   fst (cancelOrderByKeySecretIdAndSymbol engineTwo ''k1'' ''s1'' ''o2'' False) = Inr ''canceled'' \<and>
   map (\<lambda>d. (o_id d, o_status d))
     (orderModel (snd (cancelOrderByKeySecretIdAndSymbol engineTwo ''k1'' ''s1'' ''o2'' False)))
     = [(''o1'', CANCELED), (''o2'', FILLED)] \<and>
   walletModel (snd (cancelOrderByKeySecretIdAndSymbol engineTwo ''k1'' ''s1'' ''o2'' False))
     (''u1'', ''USDT'') = Some \<lparr>w_free = 10000, w_locked = 0\<rparr>"
  by (simp add: cancelOrderByKeySecretIdAndSymbol_def getUserByKeyAndSecretOrThrow_def
        processCancelOrder_def terminal_def getExchangeInfo_def isFutures_def symKey_def
        updateBalance_def increaseUserBalance_def incWallet_def watchDrop_def removeOrder_def
        jmap_delete_def Let_def engineTwo_def orderFilled_def engine1_def order1_def
        scenario_defs)

text \<open>
  Claim C9, at a failing input. A user in hedge mode sends a derivatives MARKET BUY
  without \<open>positionSide\<close>: the request is accepted, the order is stored as FILLED and the
  wallet is debited by margin and fee.
\<close>

theorem hedge_absent_positionSide_accepted:
  "hedgeModel engineHedge ''u1'' = Some True \<and> isFutures (dto_exchange hedgeOrder) \<and>
   dto_positionSide hedgeOrder = None \<and>
   fst (createOrder env0 engineHedge hedgeOrder) = Inr \<lparr>r_orderId = ''o1'', r_status = FILLED\<rparr> \<and>
   walletModel (snd (createOrder env0 engineHedge hedgeOrder)) (''u1'', ''USDT'')
     = Some \<lparr>w_free = 47499 / 5, w_locked = 500\<rparr>"
  by (simp add: futures_scenario_defs scenario_defs engine_defs futures_defs)

text \<open>
  Claim C10, at a failing input. With no cached price, and an external lookup that fails
  (so that \<open>Exchange.latestPrice\<close> returns \<open>null\<close>), \<open>createOrder\<close> for a plain limit
  order ends in the \<open>TypeError\<close> of reading \<open>request.status\<close>, not in an
  \<open>HttpException\<close> with status 400; nothing is created or changed.
\<close>

theorem createOrder_no_price_response_TypeError:
  "symbolPriceMap engine0 (symKey ''BTCUSDT'' binance) = None \<and>
   createOrder (env0\<lparr>e_latestPrice := None\<rparr>) engine0 limitBuy = (Inl TypeError, engine0)"
  by (simp add: scenario_defs engine_defs)




text \<open>
  Claim C7, as amended. Delivering one ticker whose signature equals the last signature
  recorded for its symbol starts no matching and changes nothing but the ticker-time
  map and, for a stale ticker, the cached price of that symbol: users, wallets, orders,
  positions, leverage rows, the watch set, the signature map and the projection are
  unchanged, and so is the symbol price map when the ticker is not older than 30 s.
  A stale ticker is dropped by the freshness filter, which comes before the signature
  comparison and deletes the cached price of the symbol.
\<close>

theorem duplicate_signature_dropped:
  assumes "tickerSignatureMap s (symKey (t_symbol t) ex) = Some (signature render t)"
  shows "snd (processTickers render env s ex [t]) = [] \<and>
         (\<exists>tm pm. fst (processTickers render env s ex [t])
                     = s\<lparr>tickerTimeMap := tm, symbolPriceMap := pm\<rparr> \<and>
                   (\<not> tickerTimeOf t + newDataLimit < e_now env \<longrightarrow> pm = symbolPriceMap s) \<and>
                   (\<forall>k. k \<noteq> symKey (t_symbol t) ex \<longrightarrow> pm k = symbolPriceMap s k))"
proof (cases "tickerTimeOf t < (case tickerTimeMap s (exchangeName ex) of None \<Rightarrow> 0 | Some v \<Rightarrow> v)")
  case True
  then have "processTickers render env s ex [t] = (s, [])"
    by (simp add: processTickers_def)
  moreover have "s = s\<lparr>tickerTimeMap := tickerTimeMap s, symbolPriceMap := symbolPriceMap s\<rparr>"
    by simp
  ultimately show ?thesis by (metis fst_conv snd_conv)
next
  case False
  define s0 where "s0 = s\<lparr>tickerTimeMap := (tickerTimeMap s)(exchangeName ex \<mapsto> tickerTimeOf t)\<rparr>"
  have sg0: "tickerSignatureMap s0 (symKey (t_symbol t) ex) = Some (signature render t)"
    using assms by (simp add: s0_def)
  from tickerStep_duplicate [OF sg0, of "e_now env" "[]"] obtain tm pm where
    st: "tickerStep render (e_now env) ex t (s0, []) = (s0\<lparr>tickerTimeMap := tm, symbolPriceMap := pm\<rparr>, [])"
    and p1: "\<not> tickerTimeOf t + newDataLimit < e_now env \<longrightarrow> pm = symbolPriceMap s0"
    and p2: "\<forall>k. k \<noteq> symKey (t_symbol t) ex \<longrightarrow> pm k = symbolPriceMap s0 k"
    by blast
  have r: "processTickers render env s ex [t] = (s0\<lparr>tickerTimeMap := tm, symbolPriceMap := pm\<rparr>, [])"
    using False st by (simp add: processTickers_def s0_def [symmetric])
  have e: "s0\<lparr>tickerTimeMap := tm, symbolPriceMap := pm\<rparr> = s\<lparr>tickerTimeMap := tm, symbolPriceMap := pm\<rparr>"
    by (simp add: s0_def)
  have sp: "symbolPriceMap s0 = symbolPriceMap s" by (simp add: s0_def)
  from r e p1 p2 sp show ?thesis by auto
qed

theorem duplicate_signature_dropped_witness:
  "tickerSignatureMap engineTick (symKey (t_symbol ticker0) binance)
     = Some (signature renderInt ticker0) \<and>
   \<not> tickerTimeOf ticker0 + newDataLimit < e_now envFresh \<and>
   snd (processTickers renderInt envFresh engineTick binance [ticker0]) = [] \<and>
   symbolPriceMap (fst (processTickers renderInt envFresh engineTick binance [ticker0]))
     = symbolPriceMap engineTick \<and>
   orderModel (fst (processTickers renderInt envFresh engineTick binance [ticker0]))
     = orderModel engineTick \<and>
   walletModel (fst (processTickers renderInt envFresh engineTick binance [ticker0]))
     = walletModel engineTick \<and>
   currentOrders (fst (processTickers renderInt envFresh engineTick binance [ticker0]))
     = currentOrders engineTick"
proof -
  have h: "tickerSignatureMap engineTick (symKey (t_symbol ticker0) binance)
             = Some (signature renderInt ticker0)"
    by (simp add: engineTick_def ticker0_def symKey_def)
  have f: "\<not> tickerTimeOf ticker0 + newDataLimit < e_now envFresh"
    by (simp add: tickerTimeOf_def ticker0_def newDataLimit_def envFresh_def env0_def)
  from duplicate_signature_dropped [OF h, of envFresh] f h show ?thesis by auto
qed

text \<open>
  Claim C7 as stated fails for a stale replay: the ticker has the recorded signature,
  arrives 31 s after its event time, and the cached price of its symbol is deleted.
\<close>

theorem stale_duplicate_ticker_clears_price:
  "tickerSignatureMap engineTick (symKey (t_symbol ticker0) binance)
     = Some (signature renderInt ticker0) \<and>
   symbolPriceMap engineTick ''BTCUSDT@binance'' = Some (Some 50000) \<and>
   symbolPriceMap (fst (processTickers renderInt envLate engineTick binance [ticker0]))
     ''BTCUSDT@binance'' = None \<and>
   symbolPriceMap (fst (processTickers renderInt envLate engineTick binance [ticker0]))
     \<noteq> symbolPriceMap engineTick"
proof -
  have h: "tickerSignatureMap engineTick (symKey (t_symbol ticker0) binance)
             = Some (signature renderInt ticker0)"
    by (simp add: engineTick_def ticker0_def symKey_def)
  have a: "symbolPriceMap engineTick ''BTCUSDT@binance'' = Some (Some 50000)"
    by (simp add: engineTick_def engine1_def)
  have b: "symbolPriceMap (fst (processTickers renderInt envLate engineTick binance [ticker0]))
             ''BTCUSDT@binance'' = None"
    by (simp add: processTickers_def tickerStep_def tickerTimeOf_def Let_def symKey_def
          newDataLimit_def engineTick_def engine1_def engine0_def ticker0_def envLate_def env0_def)
  from a b have "symbolPriceMap (fst (processTickers renderInt envLate engineTick binance [ticker0]))
     \<noteq> symbolPriceMap engineTick" by (metis option.distinct(1))
  with h a b show ?thesis by simp
qed

text \<open>
  Claim C2, at a failing input. On a derivatives exchange the balance check of
  \<open>createOrder\<close> asks for the margin, and the settlement debits margin and fee. A user
  with exactly the margin (500 USDT for 0.01 at 50000, leverage 1) is accepted and ends
  with \<open>free = -0.2\<close>. The same request on a spot exchange is checked against all that
  is debited and leaves \<open>free = 0\<close>.
\<close>

theorem futures_open_takes_free_below_zero:
  "walletModel engineThin (''u1'', ''USDT'') = Some \<lparr>w_free = 500, w_locked = 0\<rparr> \<and>
   isFutures (dto_exchange thinMarketBuy) \<and>
   dto_amount thinMarketBuy * 50000 / leverageOf engineThin ''u1'' ''BTCUSDT'' None = 500 \<and>
   fst (createOrder env0 engineThin thinMarketBuy) = Inr \<lparr>r_orderId = ''o1'', r_status = FILLED\<rparr> \<and>
   walletModel (snd (createOrder env0 engineThin thinMarketBuy)) (''u1'', ''USDT'')
     = Some \<lparr>w_free = - (1 / 5), w_locked = 500\<rparr> \<and>
   freeOf (snd (createOrder env0 engineThin thinMarketBuy)) ''u1'' ''USDT'' < 0 \<and>
   fst (createOrder env0 engineThin (thinMarketBuy\<lparr>dto_exchange := binance\<rparr>))
     = Inr \<lparr>r_orderId = ''o1'', r_status = FILLED\<rparr> \<and>
   walletModel (snd (createOrder env0 engineThin (thinMarketBuy\<lparr>dto_exchange := binance\<rparr>)))
     (''u1'', ''USDT'') = Some \<lparr>w_free = 0, w_locked = 0\<rparr>"
proof -
  have a: "walletModel engineThin (''u1'', ''USDT'') = Some \<lparr>w_free = 500, w_locked = 0\<rparr>"
          "isFutures (dto_exchange thinMarketBuy)"
          "dto_amount thinMarketBuy * 50000 / leverageOf engineThin ''u1'' ''BTCUSDT'' None = 500"
    by (simp_all add: engineThin_def engine0_def thinMarketBuy_def hedgeOrder_def isFutures_def
          leverageOf_def)
  have b: "fst (createOrder env0 engineThin thinMarketBuy)
             = Inr \<lparr>r_orderId = ''o1'', r_status = FILLED\<rparr>"
    by (simp add: engineThin_def thinMarketBuy_def futures_scenario_defs scenario_defs
          engine_defs futures_defs)
  have c: "walletModel (snd (createOrder env0 engineThin thinMarketBuy)) (''u1'', ''USDT'')
             = Some \<lparr>w_free = - (1 / 5), w_locked = 500\<rparr>"
    by (simp add: engineThin_def thinMarketBuy_def futures_scenario_defs scenario_defs
          engine_defs futures_defs)
  from c have d: "freeOf (snd (createOrder env0 engineThin thinMarketBuy)) ''u1'' ''USDT'' < 0"
    by (simp add: freeOf_def)
  have e: "fst (createOrder env0 engineThin (thinMarketBuy\<lparr>dto_exchange := binance\<rparr>))
             = Inr \<lparr>r_orderId = ''o1'', r_status = FILLED\<rparr>"
          "walletModel (snd (createOrder env0 engineThin (thinMarketBuy\<lparr>dto_exchange := binance\<rparr>)))
             (''u1'', ''USDT'') = Some \<lparr>w_free = 0, w_locked = 0\<rparr>"
    by (simp_all add: engineThin_def thinMarketBuy_def futures_scenario_defs scenario_defs
          engine_defs)
  from a b c d e show ?thesis by simp
qed

end
